theory Spec2Isabelle
  imports Complex_Main
begin

section \<open>Pay-per-view pledges: amount calculation, setup reconciliation, charge run\<close>

text \<open>
  The development embeds the route handlers of the pledge backend:
  \<^item> \<^verbatim>\<open>app/api/admin/run-charges/route.ts\<close>: \<open>computeAmountCents\<close> and the charge run;
  \<^item> \<^verbatim>\<open>app/api/stripe/webhook/route.ts\<close>: setup reconciliation from a webhook event;
  \<^item> the two client-confirmation handlers (by session id; by session id or setup intent id);
  \<^item> \<^verbatim>\<open>app/api/pledge/create/route.ts\<close> (its first revision) and
    \<^verbatim>\<open>app/api/admin/set-views/route.ts\<close>.

  Conventions of the embedding.
  \<^item> Integer columns and the numbers computed from them are \<open>int\<close>: the source computes
    on JavaScript numbers, which are exact on integers of magnitude below \<open>2 ^ 53\<close>.
  \<^item> Text columns are \<open>string\<close>, nullable columns are \<open>option\<close>. The status columns are
    text in the store, so they are strings here and not an enumeration.
  \<^item> The record store is a pair of tables, each a list of rows. A filtered update rewrites
    every row the filter matches; \<open>.single()\<close> yields a row only when exactly one matches.
    Store calls are taken to resolve and to apply: the handlers ignore the error value of
    every update, and a read or insert that fails is outside the model.
  \<^item> The payment provider is a record of functions, one per remote call, returning either
    the provider's answer or what the call throws. The provider answers the same call in the
    same way every time.
  \<^item> A handler takes the parsed JSON body and returns its HTTP response together with the
    store it leaves behind; the charge run also returns the charge calls it made.
\<close>

subsection \<open>Amount calculator\<close>

record amount_params =
  finalViews :: int
  viewsCap :: int
  ratePer1000Cents :: int
  donorCapCents :: "int option"

record amount_result =
  computedViews :: int
  amountCents :: int

definition computeAmountCents :: "amount_params \<Rightarrow> amount_result" where
  "computeAmountCents params =
     (let countedViews = min (finalViews params) (viewsCap params);
          units = countedViews div 1000;
          amount = units * ratePer1000Cents params;
          amount = (case donorCapCents params of
                      Some cap \<Rightarrow> min amount cap
                    | None \<Rightarrow> amount);
          amount = (if amount > 0 \<and> amount < 100 then 100 else amount)
      in \<lparr> computedViews = countedViews, amountCents = amount \<rparr>)"

text \<open>
  The algorithm of the specification, step by step: counted views, whole thousands, raw
  amount, the donor's cap when set, the one-dollar floor for a non-zero amount.
\<close>

definition spec_countedViews :: "int \<Rightarrow> int \<Rightarrow> int" where
  "spec_countedViews fv vc = (if fv \<le> vc then fv else vc)"

definition spec_units :: "int \<Rightarrow> int" where
  "spec_units cv = \<lfloor>(of_int cv :: rat) / 1000\<rfloor>"

definition spec_capped :: "int \<Rightarrow> int option \<Rightarrow> int" where
  "spec_capped raw cap = (case cap of None \<Rightarrow> raw | Some c \<Rightarrow> (if c < raw then c else raw))"

definition spec_floored :: "int \<Rightarrow> int" where
  "spec_floored a = (if a = 0 then 0 else if 0 < a \<and> a < 100 then 100 else a)"

definition spec_amount :: "int \<Rightarrow> int \<Rightarrow> int \<Rightarrow> int option \<Rightarrow> int" where
  "spec_amount fv vc rate cap =
     spec_floored (spec_capped (spec_units (spec_countedViews fv vc) * rate) cap)"

subsection \<open>Record store\<close>

text \<open>
  The rows of the two tables, with the columns the handlers read or write. The \<open>id\<close>,
  \<open>name\<close> and \<open>views_cap\<close> columns carry a prefix where two tables share the name.
\<close>

record campaign =
  c_id :: string
  c_name :: "string option"
  views_cap :: "int option"
  final_views :: "int option"
  status :: string

record pledge =
  p_id :: string
  campaign_id :: string
  p_name :: string
  email :: string
  rate_per_1000_cents :: int
  cap_amount_cents :: "int option"
  p_views_cap :: int
  setup_status :: string
  charge_status :: string
  stripe_customer_id :: "string option"
  stripe_payment_method_id :: "string option"
  stripe_payment_intent_id :: "string option"
  computed_views :: "int option"
  computed_amount_cents :: "int option"
  error_message :: "string option"
  created_at :: nat

record store =
  campaigns :: "campaign list"
  pledges :: "pledge list"

text \<open>\<open>.single()\<close>: the row when exactly one row matches, an error otherwise.\<close>

definition single :: "'a list \<Rightarrow> 'a option" where
  "single rows = (case rows of [r] \<Rightarrow> Some r | _ \<Rightarrow> None)"

definition select_campaign :: "store \<Rightarrow> string \<Rightarrow> campaign option" where
  "select_campaign db cid = single (filter (\<lambda>c. c_id c = cid) (campaigns db))"

text \<open>\<open>.from("pledges").update(f).eq("id", pid)\<close> and the same on campaigns.\<close>

definition update_pledge :: "string \<Rightarrow> (pledge \<Rightarrow> pledge) \<Rightarrow> store \<Rightarrow> store" where
  "update_pledge pid f db =
     db\<lparr> pledges := map (\<lambda>p. if p_id p = pid then f p else p) (pledges db) \<rparr>"

definition update_campaign :: "string \<Rightarrow> (campaign \<Rightarrow> campaign) \<Rightarrow> store \<Rightarrow> store" where
  "update_campaign cid f db =
     db\<lparr> campaigns := map (\<lambda>c. if c_id c = cid then f c else c) (campaigns db) \<rparr>"

subsection \<open>Request values and responses\<close>

text \<open>
  A field of a parsed JSON body, as far as the handlers look at it: absent, a string, or
  any other value. \<open>strict_equal\<close> is \<open>===\<close> against an environment variable (a string,
  or undefined when unset).
\<close>

datatype json = Undefined | JString string | JOther

fun strict_equal :: "json \<Rightarrow> string option \<Rightarrow> bool" where
  "strict_equal Undefined None = True"
| "strict_equal (JString s) (Some t) = (s = t)"
| "strict_equal _ _ = False"

text \<open>\<open>!value\<close> on a nullable string: null and the empty string are falsy.\<close>

definition falsy :: "string option \<Rightarrow> bool" where
  "falsy v = (case v of None \<Rightarrow> True | Some s \<Rightarrow> s = [])"

record counts =
  charged :: nat
  skipped :: nat
  failed :: nat
  requiresAction :: nat

datatype response =
    ErrorResponse nat string
  | ChargeSummary counts
  | ConfirmOk string
  | Received
  | SessionUrl "string option"
  | Ok

subsection \<open>Payment provider\<close>

text \<open>
  An id-valued field of a provider object: absent, the id, or the expanded object (with
  its own id when that is a string).
\<close>

datatype expandable = Absent | Id string | Obj "string option"

record checkout_session =
  metadata :: "(string \<rightharpoonup> string) option"
  setup_intent :: expandable
  customer :: expandable

record setup_intent_obj =
  si_payment_method :: expandable
  si_customer :: expandable
  si_metadata :: "(string \<rightharpoonup> string) option"

text \<open>
  What a failed \<open>paymentIntents.create\<close> throws, as the charge run reads it: \<open>message\<close>,
  \<open>code\<close> and \<open>payment_intent\<close> with its \<open>id\<close> and \<open>status\<close>, each possibly missing.
\<close>

record payment_intent_ref =
  pi_id :: "string option"
  pi_status :: "string option"

record stripe_error =
  err_message :: "string option"
  err_code :: "string option"
  err_payment_intent :: "payment_intent_ref option"

text \<open>
  The argument of \<open>paymentIntents.create\<close>. The metadata entry \<open>computed_views\<close> is kept
  as the integer whose decimal text the source sends.
\<close>

record charge_request =
  amount :: int
  currency :: string
  cr_customer :: string
  payment_method :: string
  off_session :: bool
  confirm :: bool
  description :: string
  md_pledge_id :: string
  md_campaign_id :: string
  md_computed_views :: int

record customer_request =
  cu_email :: string
  cu_name :: string
  cu_pledge_id :: string
  cu_campaign_id :: string

record session_request =
  sr_mode :: string
  sr_customer :: string
  sr_pledge_id :: string
  sr_campaign_id :: string
  sr_flow :: string

text \<open>
  The provider's calls. A call that throws returns \<open>Inl\<close>; for the retrieve and create
  calls the thrown value is reduced to its \<open>message\<close>, when it has one.
\<close>

record provider =
  paymentIntents_create :: "charge_request \<Rightarrow> stripe_error + string"
  setupIntents_retrieve :: "string \<Rightarrow> string option + setup_intent_obj"
  sessions_retrieve :: "string \<Rightarrow> string option + checkout_session"
  customers_create :: "customer_request \<Rightarrow> string option + string"
  sessions_create :: "session_request \<Rightarrow> string option + string option"

subsection \<open>Charge run\<close>

record run_body =
  password :: json
  rb_campaign_id :: json

text \<open>The state of the loop: the store, the four counters, the charge calls made so far.\<close>

record run_state =
  rs_store :: store
  rs_counts :: counts
  rs_attempts :: "charge_request list"

definition needsAction :: "stripe_error \<Rightarrow> bool" where
  "needsAction err =
     (err_code err = Some ''authentication_required'' \<or>
      (case err_payment_intent err of
         None \<Rightarrow> False
       | Some intent \<Rightarrow> pi_status intent = Some ''requires_action''))"

text \<open>
  The argument the loop passes to \<open>paymentIntents.create\<close> for a pledge whose customer and
  payment method are present.
\<close>

definition charge_request_for ::
  "campaign \<Rightarrow> string \<Rightarrow> amount_result \<Rightarrow> pledge \<Rightarrow> charge_request" where
  "charge_request_for campaign campaignId r pledge =
     \<lparr> amount = amountCents r, currency = ''usd'',
       cr_customer = the (stripe_customer_id pledge),
       payment_method = the (stripe_payment_method_id pledge),
       off_session = True, confirm = True,
       description = ''Donation pledge charge ('' @
         (case c_name campaign of None \<Rightarrow> ''Campaign'' | Some nm \<Rightarrow> nm) @ '')'',
       md_pledge_id = p_id pledge, md_campaign_id = campaignId,
       md_computed_views = computedViews r \<rparr>"

text \<open>
  One iteration of the loop over the selected pledges: the body of the \<open>try\<close> and its
  \<open>catch\<close>. The pledge is the row as selected before the loop; every update goes to the
  store by the pledge's id.
\<close>

definition process_pledge ::
  "provider \<Rightarrow> campaign \<Rightarrow> string \<Rightarrow> int \<Rightarrow> int \<Rightarrow> run_state \<Rightarrow> pledge \<Rightarrow> run_state" where
  "process_pledge stripe campaign campaignId fViews vCap st pledge =
     (let pledgeId = p_id pledge;
          r = computeAmountCents
                \<lparr> finalViews = fViews, viewsCap = vCap,
                  ratePer1000Cents = rate_per_1000_cents pledge,
                  donorCapCents = cap_amount_cents pledge \<rparr>;
          n = rs_counts st;
          db1 = update_pledge pledgeId
                  (\<lambda>p. p\<lparr> computed_views := Some (computedViews r),
                            computed_amount_cents := Some (amountCents r) \<rparr>)
                  (rs_store st)
      in if amountCents r \<le> 0 then
           st\<lparr> rs_counts := n\<lparr> skipped := skipped n + 1 \<rparr>,
               rs_store := update_pledge pledgeId (\<lambda>p. p\<lparr> charge_status := ''skipped'' \<rparr>) db1 \<rparr>
         else if falsy (stripe_customer_id pledge) \<or> falsy (stripe_payment_method_id pledge) then
           st\<lparr> rs_counts := n\<lparr> failed := failed n + 1 \<rparr>,
               rs_store := update_pledge pledgeId
                 (\<lambda>p. p\<lparr> charge_status := ''failed'',
                           error_message := Some ''Missing Stripe customer or payment method'' \<rparr>)
                 db1 \<rparr>
         else
           (let req = charge_request_for campaign campaignId r pledge
            in case paymentIntents_create stripe req of
                 Inr intentId \<Rightarrow>
                   st\<lparr> rs_counts := n\<lparr> charged := charged n + 1 \<rparr>,
                       rs_store := update_pledge pledgeId
                         (\<lambda>p. p\<lparr> charge_status := ''charged'',
                                   stripe_payment_intent_id := Some intentId,
                                   error_message := None \<rparr>)
                         db1,
                       rs_attempts := rs_attempts st @ [req] \<rparr>
               | Inl err \<Rightarrow>
                   (let message = (case err_message err of None \<Rightarrow> ''Charge failed'' | Some m \<Rightarrow> m);
                        paymentIntentId = (case err_payment_intent err of
                                             None \<Rightarrow> None | Some intent \<Rightarrow> pi_id intent)
                    in if needsAction err then
                         st\<lparr> rs_counts := n\<lparr> requiresAction := requiresAction n + 1 \<rparr>,
                             rs_store := update_pledge pledgeId
                               (\<lambda>p. p\<lparr> charge_status := ''requires_action'',
                                         error_message := Some message,
                                         stripe_payment_intent_id := paymentIntentId \<rparr>)
                               db1,
                             rs_attempts := rs_attempts st @ [req] \<rparr>
                       else
                         st\<lparr> rs_counts := n\<lparr> failed := failed n + 1 \<rparr>,
                             rs_store := update_pledge pledgeId
                               (\<lambda>p. p\<lparr> charge_status := ''failed'',
                                         error_message := Some message,
                                         stripe_payment_intent_id := paymentIntentId \<rparr>)
                               db1,
                             rs_attempts := rs_attempts st @ [req] \<rparr>)))"

text \<open>The \<open>for\<close> loop over the selected pledges, in their order.\<close>

primrec run_loop ::
  "provider \<Rightarrow> campaign \<Rightarrow> string \<Rightarrow> int \<Rightarrow> int \<Rightarrow> run_state \<Rightarrow> pledge list \<Rightarrow> run_state" where
  "run_loop stripe campaign campaignId fViews vCap st [] = st"
| "run_loop stripe campaign campaignId fViews vCap st (pledge # rest) =
     run_loop stripe campaign campaignId fViews vCap
       (process_pledge stripe campaign campaignId fViews vCap st pledge) rest"

text \<open>The eligibility filter of the select before the loop.\<close>

definition eligible :: "string \<Rightarrow> pledge \<Rightarrow> bool" where
  "eligible campaignId p =
     (campaign_id p = campaignId \<and> setup_status p = ''complete'' \<and>
      charge_status p = ''not_charged'')"

definition effective_views_cap :: "int option \<Rightarrow> int" where
  "effective_views_cap vc = (case vc of Some v \<Rightarrow> (if v > 0 then v else 20000) | None \<Rightarrow> 20000)"

definition zero_counts :: counts where
  "zero_counts = \<lparr> charged = 0, skipped = 0, failed = 0, requiresAction = 0 \<rparr>"

text \<open>
  The handler of \<^verbatim>\<open>POST /api/admin/run-charges\<close>: the response, the store it leaves and
  the charge calls it made, in order.
\<close>

definition run_charges_POST ::
  "string option \<Rightarrow> provider \<Rightarrow> store \<Rightarrow> run_body \<Rightarrow> response \<times> store \<times> charge_request list" where
  "run_charges_POST ADMIN_PASSWORD stripe db body =
     (if \<not> strict_equal (password body) ADMIN_PASSWORD then
        (ErrorResponse 401 ''Unauthorized'', db, [])
      else
        (let campaignId = (case rb_campaign_id body of JString s \<Rightarrow> s | _ \<Rightarrow> [])
         in if campaignId = [] then (ErrorResponse 400 ''Invalid input'', db, [])
            else
              (case select_campaign db campaignId of
                 None \<Rightarrow> (ErrorResponse 404 ''Campaign not found'', db, [])
               | Some campaign \<Rightarrow>
                   (case final_views campaign of
                      None \<Rightarrow> (ErrorResponse 400 ''final_views not set yet'', db, [])
                    | Some fViews \<Rightarrow>
                        (let vCap = effective_views_cap (views_cap campaign);
                             selected = filter (eligible campaignId) (pledges db);
                             st = run_loop stripe campaign campaignId fViews vCap
                                    \<lparr> rs_store = db, rs_counts = zero_counts, rs_attempts = [] \<rparr>
                                    selected;
                             db' = update_campaign campaignId (\<lambda>c. c\<lparr> status := ''charged'' \<rparr>)
                                     (rs_store st)
                         in (ChargeSummary (rs_counts st), db', rs_attempts st))))))"

subsection \<open>Setup reconciliation\<close>

text \<open>
  \<open>isNonEmptyString\<close>: a string with a character left after \<open>trim()\<close>. Strings are byte
  strings here, so the whitespace \<open>trim\<close> removes is the ASCII part of it.
\<close>

definition js_whitespace :: "char \<Rightarrow> bool" where
  "js_whitespace c = (c \<in> set [CHR 0x20, CHR 0x09, CHR 0x0A, CHR 0x0B, CHR 0x0C, CHR 0x0D])"

definition isNonEmptyString :: "json \<Rightarrow> bool" where
  "isNonEmptyString v = (case v of JString s \<Rightarrow> \<not> list_all js_whitespace s | _ \<Rightarrow> False)"

definition string_of :: "json \<Rightarrow> string" where
  "string_of v = (case v of JString s \<Rightarrow> s | _ \<Rightarrow> [])"

fun getStringId :: "expandable \<Rightarrow> string option" where
  "getStringId (Id s) = Some s"
| "getStringId (Obj (Some s)) = Some s"
| "getStringId _ = None"

text \<open>\<open>typeof value === "string" ? value : null\<close>, as the webhook reads an id.\<close>

fun string_or_null :: "expandable \<Rightarrow> string option" where
  "string_or_null (Id s) = Some s"
| "string_or_null _ = None"

text \<open>\<open>metadata?.key\<close>.\<close>

definition metadata_get :: "(string \<rightharpoonup> string) option \<Rightarrow> string \<Rightarrow> string option" where
  "metadata_get md k = (case md of None \<Rightarrow> None | Some m \<Rightarrow> m k)"

text \<open>The three updates the reconcilers write to a pledge.\<close>

definition mark_failed :: "string \<Rightarrow> pledge \<Rightarrow> pledge" where
  "mark_failed msg p = p\<lparr> setup_status := ''failed'', error_message := Some msg \<rparr>"

definition mark_complete :: "string option \<Rightarrow> string option \<Rightarrow> pledge \<Rightarrow> pledge" where
  "mark_complete customerId paymentMethodId p =
     p\<lparr> stripe_customer_id := customerId, stripe_payment_method_id := paymentMethodId,
        setup_status := ''complete'', error_message := None \<rparr>"

definition mark_complete_webhook :: "string \<Rightarrow> string \<Rightarrow> pledge \<Rightarrow> pledge" where
  "mark_complete_webhook customerId paymentMethodId p =
     p\<lparr> stripe_customer_id := Some customerId, stripe_payment_method_id := Some paymentMethodId,
        setup_status := ''complete'' \<rparr>"

subsubsection \<open>Webhook\<close>

text \<open>
  The session object of a \<open>checkout.session.completed\<close> event, the event, and the request:
  its \<open>stripe-signature\<close> header and what \<open>constructEvent\<close> makes of the raw body (nothing
  when it throws).
\<close>

record event_session =
  es_metadata :: "(string \<rightharpoonup> string) option"
  es_setup_intent :: "string option"
  es_customer :: expandable

record stripe_event =
  event_type :: string
  event_object :: event_session

record webhook_request =
  signature :: "string option"
  constructEvent :: "stripe_event option"

definition webhook_POST :: "provider \<Rightarrow> store \<Rightarrow> webhook_request \<Rightarrow> response \<times> store" where
  "webhook_POST stripe db req =
     (if falsy (signature req) then (ErrorResponse 400 ''Missing signature'', db)
      else
        (case constructEvent req of
           None \<Rightarrow> (ErrorResponse 400 ''Invalid signature'', db)
         | Some event \<Rightarrow>
             (if event_type event = ''checkout.session.completed'' then
                (let session = event_object event;
                     flow = metadata_get (es_metadata session) ''flow'';
                     pledgeId = metadata_get (es_metadata session) ''pledge_id''
                 in if flow = Some ''pledge_setup'' \<and> \<not> falsy pledgeId then
                      (let setupIntentId = es_setup_intent session
                       in if falsy setupIntentId then
                            (Received,
                             update_pledge (the pledgeId)
                               (mark_failed ''Missing setup_intent on checkout completion'') db)
                          else
                            (case setupIntents_retrieve stripe (the setupIntentId) of
                               Inr setupIntent \<Rightarrow>
                                 (let paymentMethodId = string_or_null (si_payment_method setupIntent);
                                      customerId = string_or_null (es_customer session)
                                  in if \<not> falsy paymentMethodId \<and> \<not> falsy customerId then
                                       (Received,
                                        update_pledge (the pledgeId)
                                          (mark_complete_webhook (the customerId) (the paymentMethodId))
                                          db)
                                     else
                                       (Received,
                                        update_pledge (the pledgeId)
                                          (mark_failed
                                             ''Missing customer or payment method on setup completion'')
                                          db))
                             | Inl e \<Rightarrow>
                                 (let message = (case e of Some m \<Rightarrow> m
                                                 | None \<Rightarrow> ''Webhook processing failed'')
                                  in (Received,
                                      update_pledge (the pledgeId) (mark_failed message) db))))
                    else (Received, db))
              else (Received, db))))"

subsubsection \<open>Client confirmation by session id\<close>

definition confirm_session_POST :: "provider \<Rightarrow> store \<Rightarrow> json \<Rightarrow> response \<times> store" where
  "confirm_session_POST stripe db session_id =
     (if \<not> isNonEmptyString session_id then (ErrorResponse 400 ''session_id is required'', db)
      else
        (case sessions_retrieve stripe (string_of session_id) of
           Inl e \<Rightarrow> (ErrorResponse 502 ''Unable to retrieve checkout session'', db)
         | Inr session \<Rightarrow>
             (let flow = metadata_get (metadata session) ''flow'';
                  pledgeId = metadata_get (metadata session) ''pledge_id''
              in if flow \<noteq> Some ''pledge_setup'' \<or> falsy pledgeId then
                   (ErrorResponse 400 ''Session is not a pledge setup'', db)
                 else
                   (let setupIntentId = getStringId (setup_intent session);
                        customerId = getStringId (customer session)
                    in if falsy setupIntentId then
                         (ErrorResponse 409 ''Missing setup intent'',
                          update_pledge (the pledgeId)
                            (mark_failed ''Missing setup_intent on checkout session'') db)
                       else
                         (case setupIntents_retrieve stripe (the setupIntentId) of
                            Inl e \<Rightarrow> (ErrorResponse 502 ''Unable to retrieve setup intent'', db)
                          | Inr setupIntent \<Rightarrow>
                              (let paymentMethodId = getStringId (si_payment_method setupIntent)
                               in if falsy customerId \<or> falsy paymentMethodId then
                                    (ErrorResponse 409 ''Setup completed without payment method'',
                                     update_pledge (the pledgeId)
                                       (mark_failed
                                          ''Missing customer or payment method on setup completion'')
                                       db)
                                  else
                                    (ConfirmOk (the pledgeId),
                                     update_pledge (the pledgeId)
                                       (mark_complete customerId paymentMethodId) db)))))))"

subsubsection \<open>Client confirmation by session id or setup intent id\<close>

record confirm_body =
  session_id :: json
  cb_setup_intent :: json

text \<open>
  \<open>.eq("stripe_customer_id", customerId).order("created_at", descending).limit(1)\<close>: the
  latest row of a customer. Among rows created at the same time the store's order is not
  fixed; the model takes the first of them in table order.
\<close>

fun latest :: "pledge list \<Rightarrow> pledge option" where
  "latest [] = None"
| "latest (p # ps) =
     (case latest ps of
        None \<Rightarrow> Some p
      | Some q \<Rightarrow> (if created_at p < created_at q then Some q else Some p))"

definition latest_pledge_of_customer :: "store \<Rightarrow> string \<Rightarrow> string option" where
  "latest_pledge_of_customer db customerId =
     map_option p_id (latest (filter (\<lambda>p. stripe_customer_id p = Some customerId) (pledges db)))"

text \<open>
  The first part of the handler, up to the retrieval of the setup intent: the pledge id and
  customer id found so far and the setup intent id to fetch, or the response it returns.
\<close>

definition resolve_setup ::
  "provider \<Rightarrow> confirm_body \<Rightarrow> response + (string option \<times> string option \<times> string)" where
  "resolve_setup stripe body =
     (if \<not> isNonEmptyString (session_id body) \<and> \<not> isNonEmptyString (cb_setup_intent body) then
        Inl (ErrorResponse 400 ''session_id or setup_intent is required'')
      else if isNonEmptyString (session_id body) then
        (case sessions_retrieve stripe (string_of (session_id body)) of
           Inl e \<Rightarrow> Inl (ErrorResponse 502 ''Unable to retrieve checkout session'')
         | Inr session \<Rightarrow>
             (let flow = metadata_get (metadata session) ''flow'';
                  pledgeId = metadata_get (metadata session) ''pledge_id''
              in if flow \<noteq> Some ''pledge_setup'' \<or> falsy pledgeId then
                   Inl (ErrorResponse 400 ''Session is not a pledge setup'')
                 else
                   (let setupIntentId = getStringId (setup_intent session);
                        customerId = getStringId (customer session)
                    in if falsy setupIntentId then Inl (ErrorResponse 409 ''Missing setup intent'')
                       else Inr (pledgeId, customerId, the setupIntentId))))
      else Inr (None, None, string_of (cb_setup_intent body)))"

definition confirm_POST :: "provider \<Rightarrow> store \<Rightarrow> confirm_body \<Rightarrow> response \<times> store" where
  "confirm_POST stripe db body =
     (case resolve_setup stripe body of
        Inl resp \<Rightarrow> (resp, db)
      | Inr (pledgeId0, customerId0, setupIntentId) \<Rightarrow>
          (case setupIntents_retrieve stripe setupIntentId of
             Inl e \<Rightarrow> (ErrorResponse 502 ''Unable to retrieve setup intent'', db)
           | Inr setupIntent \<Rightarrow>
               (let customerId = (if falsy customerId0 then getStringId (si_customer setupIntent)
                                  else customerId0);
                    paymentMethodId = getStringId (si_payment_method setupIntent);
                    pledgeId1 = (if falsy pledgeId0
                                 then metadata_get (si_metadata setupIntent) ''pledge_id''
                                 else pledgeId0);
                    pledgeId = (if falsy pledgeId1 \<and> \<not> falsy customerId
                                then latest_pledge_of_customer db (the customerId)
                                else pledgeId1)
                in if falsy pledgeId then
                     (ErrorResponse 409 ''Unable to locate pledge for this setup'', db)
                   else if falsy paymentMethodId then
                     (ErrorResponse 409 ''Setup completed without payment method'',
                      update_pledge (the pledgeId)
                        (mark_failed ''Missing payment method on setup completion'') db)
                   else
                     (ConfirmOk (the pledgeId),
                      update_pledge (the pledgeId)
                        (mark_complete customerId paymentMethodId) db))))"

subsection \<open>Pledge creation and final views\<close>

text \<open>
  The numeric fields of the bodies after \<open>Number(...)\<close>: a rational when the number is
  finite, nothing otherwise. A cap that is absent, null or the empty string is no cap.
  \<open>Math.round\<close> rounds half up.
\<close>

record create_body =
  cr_campaign_id :: json
  cr_name :: json
  cr_email :: json
  rate_per_1000 :: "rat option"
  cap_amount :: "rat option option"

definition Math_round :: "rat \<Rightarrow> int" where
  "Math_round x = \<lfloor>x + 1 / 2\<rfloor>"

text \<open>
  The handler of \<^verbatim>\<open>POST /api/pledge/create\<close>. The store assigns the id and the creation
  time of the inserted row; both are parameters.
\<close>

definition pledge_create_POST ::
  "provider \<Rightarrow> string \<Rightarrow> nat \<Rightarrow> store \<Rightarrow> create_body \<Rightarrow> response \<times> store" where
  "pledge_create_POST stripe newId now db body =
     (if \<not> isNonEmptyString (cr_campaign_id body) \<or> \<not> isNonEmptyString (cr_name body) \<or>
         \<not> isNonEmptyString (cr_email body) then
        (ErrorResponse 400 ''Missing required fields'', db)
      else
        (case rate_per_1000 body of
           None \<Rightarrow> (ErrorResponse 400 ''rate_per_1000 must be at least $1'', db)
         | Some ratePer1000 \<Rightarrow>
             (if ratePer1000 < 1 then
                (ErrorResponse 400 ''rate_per_1000 must be at least $1'', db)
              else if (case cap_amount body of
                         None \<Rightarrow> False
                       | Some None \<Rightarrow> True
                       | Some (Some capAmount) \<Rightarrow> capAmount < 1) then
                (ErrorResponse 400 ''cap_amount must be at least $1 when provided'', db)
              else
                (case select_campaign db (string_of (cr_campaign_id body)) of
                   None \<Rightarrow> (ErrorResponse 404 ''Campaign not found'', db)
                 | Some campaign \<Rightarrow>
                     (if status campaign \<noteq> ''open'' then
                        (ErrorResponse 400 ''Campaign is not accepting new pledges'', db)
                      else
                        (let vCap = effective_views_cap (views_cap campaign);
                             ratePer1000Cents = Math_round (ratePer1000 * 100);
                             capAmountCents =
                               (case cap_amount body of
                                  Some (Some capAmount) \<Rightarrow> Some (Math_round (capAmount * 100))
                                | _ \<Rightarrow> None);
                             row = \<lparr> p_id = newId,
                                     campaign_id = string_of (cr_campaign_id body),
                                     p_name = string_of (cr_name body),
                                     email = string_of (cr_email body),
                                     rate_per_1000_cents = ratePer1000Cents,
                                     cap_amount_cents = capAmountCents,
                                     p_views_cap = vCap,
                                     setup_status = ''pending'',
                                     charge_status = ''not_charged'',
                                     stripe_customer_id = None,
                                     stripe_payment_method_id = None,
                                     stripe_payment_intent_id = None,
                                     computed_views = None,
                                     computed_amount_cents = None,
                                     error_message = None,
                                     created_at = now \<rparr>;
                             db1 = db\<lparr> pledges := pledges db @ [row] \<rparr>
                         in case customers_create stripe
                                   \<lparr> cu_email = string_of (cr_email body),
                                     cu_name = string_of (cr_name body),
                                     cu_pledge_id = newId,
                                     cu_campaign_id = string_of (cr_campaign_id body) \<rparr> of
                              Inl e \<Rightarrow>
                                (ErrorResponse 500
                                   (case e of Some m \<Rightarrow> m | None \<Rightarrow> ''Request failed''), db1)
                            | Inr customerId \<Rightarrow>
                                (case sessions_create stripe
                                        \<lparr> sr_mode = ''setup'', sr_customer = customerId,
                                          sr_pledge_id = newId,
                                          sr_campaign_id = string_of (cr_campaign_id body),
                                          sr_flow = ''pledge_setup'' \<rparr> of
                                   Inl e \<Rightarrow>
                                     (ErrorResponse 500
                                        (case e of Some m \<Rightarrow> m | None \<Rightarrow> ''Request failed''), db1)
                                 | Inr url \<Rightarrow>
                                     (SessionUrl url,
                                      update_pledge newId
                                        (\<lambda>p. p\<lparr> stripe_customer_id := Some customerId \<rparr>)
                                        db1))))))))"

record set_views_body =
  sv_password :: json
  sv_campaign_id :: json
  sv_final_views :: "rat option"

text \<open>The handler of \<^verbatim>\<open>POST /api/admin/set-views\<close>.\<close>

definition set_views_POST ::
  "string option \<Rightarrow> store \<Rightarrow> set_views_body \<Rightarrow> response \<times> store" where
  "set_views_POST ADMIN_PASSWORD db body =
     (if \<not> strict_equal (sv_password body) ADMIN_PASSWORD then
        (ErrorResponse 401 ''Unauthorized'', db)
      else
        (let campaignId = string_of (sv_campaign_id body)
         in if campaignId = [] \<or>
               (case sv_final_views body of None \<Rightarrow> True | Some v \<Rightarrow> v < 0) then
              (ErrorResponse 400 ''Invalid input'', db)
            else
              (case select_campaign db campaignId of
                 None \<Rightarrow> (ErrorResponse 404 ''Campaign not found'', db)
               | Some campaign \<Rightarrow>
                   (if status campaign = ''charged'' then
                      (ErrorResponse 400 ''Campaign is already charged'', db)
                    else
                      (Ok,
                       update_campaign campaignId
                         (\<lambda>c. c\<lparr> final_views := Some \<lfloor>the (sv_final_views body)\<rfloor>,
                                   status := ''locked'' \<rparr>)
                         db)))))"

subsection \<open>Auxiliary notions\<close>

text \<open>
  The statuses a charge run writes, and the relations between a row before and after one
  iteration of the loop (\<open>step_rel\<close>) and before and after the iterations for a set of
  pledge ids (\<open>loop_rel\<close>).
\<close>

definition resolved :: "string set" where
  "resolved = {''charged'', ''skipped'', ''failed'', ''requires_action''}"

definition step_rel :: "pledge \<Rightarrow> pledge \<Rightarrow> pledge \<Rightarrow> bool" where
  "step_rel p row row' =
     (p_id row' = p_id row \<and> campaign_id row' = campaign_id row \<and>
      setup_status row' = setup_status row \<and>
      (if p_id row = p_id p then charge_status row' \<in> resolved else row' = row))"

definition loop_rel :: "string set \<Rightarrow> pledge \<Rightarrow> pledge \<Rightarrow> bool" where
  "loop_rel ids row row' =
     (p_id row' = p_id row \<and> campaign_id row' = campaign_id row \<and>
      setup_status row' = setup_status row \<and>
      (charge_status row' \<in> resolved \<or> row' = row) \<and>
      (p_id row \<notin> ids \<or> charge_status row' \<in> resolved))"

text \<open>
  The amount the loop computes for a pledge, and what the iteration for a pledge does to one
  row of the table: the iteration run on the table that holds only that row.
\<close>

definition pledge_amount :: "int \<Rightarrow> int \<Rightarrow> pledge \<Rightarrow> amount_result" where
  "pledge_amount fViews vCap pledge =
     computeAmountCents
       \<lparr> finalViews = fViews, viewsCap = vCap,
         ratePer1000Cents = rate_per_1000_cents pledge,
         donorCapCents = cap_amount_cents pledge \<rparr>"

definition row_after ::
  "provider \<Rightarrow> campaign \<Rightarrow> string \<Rightarrow> int \<Rightarrow> int \<Rightarrow> pledge \<Rightarrow> pledge \<Rightarrow> pledge" where
  "row_after stripe campaign campaignId fViews vCap pledge row =
     hd (pledges (rs_store (process_pledge stripe campaign campaignId fViews vCap
           \<lparr> rs_store = \<lparr> campaigns = [], pledges = [row] \<rparr>,
             rs_counts = zero_counts, rs_attempts = [] \<rparr> pledge)))"

text \<open>
  How the latest row of a customer may change when the rows of pledge \<open>pid\<close> are updated:
  it keeps its id and creation time, or it is a row of \<open>pid\<close> created no earlier.
\<close>

definition later_or_same :: "string \<Rightarrow> pledge option \<Rightarrow> pledge option \<Rightarrow> bool" where
  "later_or_same pid old new =
     (case old of
        None \<Rightarrow> (case new of None \<Rightarrow> True | Some q' \<Rightarrow> p_id q' = pid)
      | Some q \<Rightarrow>
          (case new of
             None \<Rightarrow> False
           | Some q' \<Rightarrow> created_at q \<le> created_at q' \<and>
               (p_id q' = pid \<or> (p_id q' = p_id q \<and> created_at q' = created_at q))))"

text \<open>
  The terms pledge creation accepts: a rate of at least one dollar per thousand views and,
  when given, a cap of at least one dollar.
\<close>

definition terms_in_range :: "pledge \<Rightarrow> bool" where
  "terms_in_range p =
     (100 \<le> rate_per_1000_cents p \<and>
      (case cap_amount_cents p of None \<Rightarrow> True | Some c \<Rightarrow> 100 \<le> c))"

subsection \<open>Example data\<close>

text \<open>
  A store with a campaign whose views are final, a campaign still open, three pledges
  ready to be charged and one whose setup is pending; a provider that charges the first
  pledge and declines the others asking for authentication; a provider that knows the
  checkout session and the setup intent of the fourth pledge, and the same provider with
  setup intents out of reach.
\<close>

definition demo_pledge :: "string \<Rightarrow> int \<Rightarrow> int option \<Rightarrow> string \<Rightarrow> string option \<Rightarrow> pledge" where
  "demo_pledge pid rate cap setup pm =
     \<lparr> p_id = pid, campaign_id = ''c1'', p_name = ''Donor'', email = ''donor@example.org'',
       rate_per_1000_cents = rate, cap_amount_cents = cap, p_views_cap = 20000,
       setup_status = setup, charge_status = ''not_charged'',
       stripe_customer_id = Some (''cus_'' @ pid), stripe_payment_method_id = pm,
       stripe_payment_intent_id = None, computed_views = None, computed_amount_cents = None,
       error_message = None, created_at = 0 \<rparr>"

definition demo_db :: store where
  "demo_db =
     \<lparr> campaigns =
         [\<lparr> c_id = ''c1'', c_name = Some ''Launch'', views_cap = None,
            final_views = Some 15000, status = ''locked'' \<rparr>,
          \<lparr> c_id = ''c2'', c_name = None, views_cap = Some 20000,
            final_views = None, status = ''open'' \<rparr>],
       pledges =
         [demo_pledge ''p1'' 500 None ''complete'' (Some ''pm_1''),
          demo_pledge ''p2'' 1000 (Some 6000) ''complete'' (Some ''pm_2''),
          demo_pledge ''p3'' 500 None ''complete'' None,
          demo_pledge ''p4'' 500 None ''pending'' None] \<rparr>"

definition demo_decline :: stripe_error where
  "demo_decline =
     \<lparr> err_message = Some ''Authentication required'',
       err_code = Some ''authentication_required'',
       err_payment_intent = Some \<lparr> pi_id = Some ''pi_2'', pi_status = Some ''requires_payment_method'' \<rparr> \<rparr>"

definition demo_stripe :: provider where
  "demo_stripe =
     \<lparr> paymentIntents_create =
         (\<lambda>req. if md_pledge_id req = ''p1'' then Inr ''pi_1'' else Inl demo_decline),
       setupIntents_retrieve = (\<lambda>_. Inl None),
       sessions_retrieve = (\<lambda>_. Inl None),
       customers_create = (\<lambda>_. Inl None),
       sessions_create = (\<lambda>_. Inl None) \<rparr>"

definition demo_run_body :: "string \<Rightarrow> run_body" where
  "demo_run_body cid = \<lparr> password = JString ''secret'', rb_campaign_id = JString cid \<rparr>"

definition demo_session :: checkout_session where
  "demo_session =
     \<lparr> metadata = Some [''flow'' \<mapsto> ''pledge_setup'', ''pledge_id'' \<mapsto> ''p4''],
       setup_intent = Id ''seti_4'', customer = Id ''cus_p4'' \<rparr>"

definition demo_setup_intent :: setup_intent_obj where
  "demo_setup_intent =
     \<lparr> si_payment_method = Id ''pm_4'', si_customer = Id ''cus_p4'',
       si_metadata = Some [''pledge_id'' \<mapsto> ''p4''] \<rparr>"

definition demo_setup_stripe :: provider where
  "demo_setup_stripe =
     \<lparr> paymentIntents_create = (\<lambda>req. Inr ''pi_late''),
       setupIntents_retrieve =
         (\<lambda>i. if i = ''seti_4'' then Inr demo_setup_intent else Inl (Some ''No such setupintent'')),
       sessions_retrieve =
         (\<lambda>i. if i = ''cs_4'' then Inr demo_session else Inl (Some ''No such session'')),
       customers_create = (\<lambda>_. Inl None),
       sessions_create = (\<lambda>_. Inl None) \<rparr>"

definition demo_down_stripe :: provider where
  "demo_down_stripe =
     demo_setup_stripe\<lparr> setupIntents_retrieve := (\<lambda>i. Inl (Some ''connection error'')) \<rparr>"

definition demo_confirm_body :: confirm_body where
  "demo_confirm_body = \<lparr> session_id = JString ''cs_4'', cb_setup_intent = Undefined \<rparr>"

definition demo_webhook_request :: webhook_request where
  "demo_webhook_request =
     \<lparr> signature = Some ''t=1,v1=abc'',
       constructEvent = Some
         \<lparr> event_type = ''checkout.session.completed'',
           event_object =
             \<lparr> es_metadata = Some [''flow'' \<mapsto> ''pledge_setup'', ''pledge_id'' \<mapsto> ''p4''],
               es_setup_intent = Some ''seti_4'', es_customer = Id ''cus_p4'' \<rparr> \<rparr> \<rparr>"

text \<open>
  The store after the charge run on the first campaign; the same store after the fourth
  pledge has completed its setup; a request for a new pledge and a request to set the final
  views, both on the first campaign.
\<close>

definition demo_db_charged :: store where
  "demo_db_charged =
     fst (snd (run_charges_POST (Some ''secret'') demo_stripe demo_db (demo_run_body ''c1'')))"

definition demo_db_late :: store where
  "demo_db_late = snd (confirm_POST demo_setup_stripe demo_db_charged demo_confirm_body)"

definition demo_create_body :: create_body where
  "demo_create_body =
     \<lparr> cr_campaign_id = JString ''c1'', cr_name = JString ''Late Donor'',
       cr_email = JString ''late@example.org'', rate_per_1000 = Some 5, cap_amount = None \<rparr>"

definition demo_set_views_body :: set_views_body where
  "demo_set_views_body =
     \<lparr> sv_password = JString ''secret'', sv_campaign_id = JString ''c1'',
       sv_final_views = Some 99000 \<rparr>"

subsection \<open>Properties of the amount calculator\<close>

lemma spec_units_div: "spec_units cv = cv div 1000"
proof -
  have "\<lfloor>(of_int cv :: rat) / of_int 1000\<rfloor> = cv div 1000"
    by (rule floor_divide_of_int_eq)
  then show ?thesis by (simp add: spec_units_def)
qed

text \<open>
  The four scenarios of the specification: no cap; less than a thousand views; a raw amount
  under one dollar; views cap and donor cap both in force.
\<close>

lemma computeAmountCents_scenarios:
  "computeAmountCents \<lparr> finalViews = 15000, viewsCap = 20000, ratePer1000Cents = 500,
                        donorCapCents = None \<rparr>
     = \<lparr> computedViews = 15000, amountCents = 7500 \<rparr>"
  "computeAmountCents \<lparr> finalViews = 500, viewsCap = 20000, ratePer1000Cents = 1000,
                        donorCapCents = None \<rparr>
     = \<lparr> computedViews = 500, amountCents = 0 \<rparr>"
  "computeAmountCents \<lparr> finalViews = 1000, viewsCap = 20000, ratePer1000Cents = 50,
                        donorCapCents = None \<rparr>
     = \<lparr> computedViews = 1000, amountCents = 100 \<rparr>"
  "computeAmountCents \<lparr> finalViews = 30000, viewsCap = 20000, ratePer1000Cents = 500,
                        donorCapCents = Some 6000 \<rparr>
     = \<lparr> computedViews = 20000, amountCents = 6000 \<rparr>"
  by (simp_all add: computeAmountCents_def)

text \<open>
  Claim C1. For non-negative final views, a positive views cap, a positive rate and an
  optional positive donor cap, \<open>computeAmountCents\<close> returns the counted views
  \<open>min finalViews viewsCap\<close> and the amount of the specification's algorithm: whole
  thousands of counted views times the rate, cut to the donor's cap when one is set, then
  raised to 100 when strictly between 0 and 100, with zero left at zero. (The proof does not
  use the bounds on the inputs.)
\<close>

theorem computeAmountCents_spec:
  assumes "0 \<le> fv" and "0 < vc" and "0 < rate" and "case cap of None \<Rightarrow> True | Some c \<Rightarrow> 0 < c"
  shows "computeAmountCents \<lparr> finalViews = fv, viewsCap = vc, ratePer1000Cents = rate,
                              donorCapCents = cap \<rparr>
         = \<lparr> computedViews = min fv vc, amountCents = spec_amount fv vc rate cap \<rparr>"
proof -
  have cv: "spec_countedViews fv vc = min fv vc"
    by (simp add: spec_countedViews_def min_def)
  have capped: "spec_capped raw cap = (case cap of Some c \<Rightarrow> min raw c | None \<Rightarrow> raw)" for raw
    by (simp add: spec_capped_def min_def split: option.split)
  show ?thesis
    by (simp add: computeAmountCents_def spec_amount_def spec_floored_def cv capped
        spec_units_div Let_def split: option.split)
qed

text \<open>
  Witness for C1: scenario D of the specification, inside the bounds of the claim.
\<close>

theorem computeAmountCents_spec_witness:
  "(0::int) \<le> 30000 \<and> (0::int) < 20000 \<and> (0::int) < 500 \<and> (0::int) < 6000
   \<and> computeAmountCents \<lparr> finalViews = 30000, viewsCap = 20000, ratePer1000Cents = 500,
                          donorCapCents = Some 6000 \<rparr>
       = \<lparr> computedViews = 20000, amountCents = 6000 \<rparr>
   \<and> spec_amount 30000 20000 500 (Some 6000) = 6000"
proof -
  have "computeAmountCents \<lparr> finalViews = 30000, viewsCap = 20000, ratePer1000Cents = 500,
                              donorCapCents = Some 6000 \<rparr>
        = \<lparr> computedViews = min 30000 20000,
            amountCents = spec_amount 30000 20000 500 (Some 6000) \<rparr>"
    by (rule computeAmountCents_spec) simp_all
  moreover have "spec_amount 30000 20000 500 (Some 6000) = 6000"
    by (simp add: spec_amount_def spec_floored_def spec_capped_def spec_units_div
        spec_countedViews_def)
  ultimately show ?thesis by simp
qed

text \<open>
  Claim C2 says that the amount never exceeds a donor cap that is set, for every positive
  cap. The one-dollar floor is applied after the cap, so a cap below 100 is exceeded: with
  1000 final views, a rate of 100 and a cap of 50 the amount is 100.
\<close>

theorem donor_cap_exceeded_counterexample:
  "(0::int) \<le> 1000 \<and> (0::int) < 20000 \<and> (0::int) < 100 \<and> (0::int) < 50
   \<and> \<not> amountCents (computeAmountCents
          \<lparr> finalViews = 1000, viewsCap = 20000, ratePer1000Cents = 100,
            donorCapCents = Some 50 \<rparr>) \<le> 50"
  by (simp add: computeAmountCents_def)

text \<open>
  Claim C2, amended. For every donor cap of at least 100, the amount \<open>computeAmountCents\<close>
  returns is at most the cap.
\<close>

theorem donor_cap_ceiling:
  assumes "100 \<le> cap"
  shows "amountCents (computeAmountCents
           \<lparr> finalViews = fv, viewsCap = vc, ratePer1000Cents = rate,
             donorCapCents = Some cap \<rparr>) \<le> cap"
  using assms by (simp add: computeAmountCents_def Let_def)

text \<open>
  Witness for C2 as amended: scenario D, where the cap of 6000 is reached.
\<close>

theorem donor_cap_ceiling_witness:
  "(100::int) \<le> 6000
   \<and> amountCents (computeAmountCents
         \<lparr> finalViews = 30000, viewsCap = 20000, ratePer1000Cents = 500,
           donorCapCents = Some 6000 \<rparr>) = 6000"
proof -
  have "amountCents (computeAmountCents
         \<lparr> finalViews = 30000, viewsCap = 20000, ratePer1000Cents = 500,
           donorCapCents = Some 6000 \<rparr>) \<le> 6000"
    by (rule donor_cap_ceiling) simp
  moreover have "6000 \<le> amountCents (computeAmountCents
         \<lparr> finalViews = 30000, viewsCap = 20000, ratePer1000Cents = 500,
           donorCapCents = Some 6000 \<rparr>)"
    by (simp add: computeAmountCents_def)
  ultimately show ?thesis by simp
qed

text \<open>
  Caps below 100 do not come from pledge creation: every row it inserts has a rate of at
  least 100 and a cap, when set, of at least 100.
\<close>

lemma Math_round_cents: "1 \<le> x \<Longrightarrow> 100 \<le> Math_round (x * 100)"
  by (simp add: Math_round_def le_floor_iff)

lemma update_pledge_list_all:
  "list_all P (pledges db) \<Longrightarrow> (\<And>p. P p \<Longrightarrow> P (f p)) \<Longrightarrow>
   list_all P (pledges (update_pledge pid f db))"
  by (auto simp: update_pledge_def list_all_iff)

lemma pledge_create_terms:
  assumes "list_all terms_in_range (pledges db)"
  shows "list_all terms_in_range (pledges (snd (pledge_create_POST stripe newId now db body)))"
  using assms
  by (auto simp: pledge_create_POST_def Let_def terms_in_range_def Math_round_cents
      intro!: update_pledge_list_all split: option.split sum.split)

subsection \<open>Properties of the charge run\<close>

text \<open>
  The loop leaves the campaigns alone, and each iteration adds one to the sum of the four
  counters.
\<close>

lemma process_pledge_campaigns:
  "campaigns (rs_store (process_pledge stripe c cid fv vc st p)) = campaigns (rs_store st)"
  by (simp add: process_pledge_def Let_def update_pledge_def split: sum.split)

lemma run_loop_campaigns:
  "campaigns (rs_store (run_loop stripe c cid fv vc st ps)) = campaigns (rs_store st)"
  by (induction ps arbitrary: st) (simp_all add: process_pledge_campaigns)

lemma process_pledge_counts:
  "charged (rs_counts (process_pledge stripe c cid fv vc st p))
   + skipped (rs_counts (process_pledge stripe c cid fv vc st p))
   + failed (rs_counts (process_pledge stripe c cid fv vc st p))
   + requiresAction (rs_counts (process_pledge stripe c cid fv vc st p))
   = charged (rs_counts st) + skipped (rs_counts st) + failed (rs_counts st)
     + requiresAction (rs_counts st) + 1"
  by (simp add: process_pledge_def Let_def split: sum.split)

lemma run_loop_counts:
  "charged (rs_counts (run_loop stripe c cid fv vc st ps))
   + skipped (rs_counts (run_loop stripe c cid fv vc st ps))
   + failed (rs_counts (run_loop stripe c cid fv vc st ps))
   + requiresAction (rs_counts (run_loop stripe c cid fv vc st ps))
   = charged (rs_counts st) + skipped (rs_counts st) + failed (rs_counts st)
     + requiresAction (rs_counts st) + length ps"
proof (induction ps arbitrary: st)
  case Nil
  show ?case by simp
next
  case (Cons p ps)
  show ?case
    using Cons.IH [of "process_pledge stripe c cid fv vc st p"]
      process_pledge_counts [of stripe c cid fv vc st p]
    by simp
qed

lemma process_pledge_one_counter:
  "rs_counts (process_pledge stripe c cid fv vc st p) \<in>
     {(rs_counts st)\<lparr> charged := charged (rs_counts st) + 1 \<rparr>,
      (rs_counts st)\<lparr> skipped := skipped (rs_counts st) + 1 \<rparr>,
      (rs_counts st)\<lparr> failed := failed (rs_counts st) + 1 \<rparr>,
      (rs_counts st)\<lparr> requiresAction := requiresAction (rs_counts st) + 1 \<rparr>}"
  by (simp add: process_pledge_def Let_def split: sum.split)

text \<open>
  Each iteration keeps every row's id, campaign and setup status, resolves the rows of its
  pledge and leaves the other rows as they are; so the loop resolves the rows of every
  pledge it iterates over and never sets a status back to \<open>not_charged\<close>.
\<close>

lemma list_all2_map_same:
  "(\<And>x. x \<in> set xs \<Longrightarrow> P x (f x)) \<Longrightarrow> list_all2 P xs (map f xs)"
  by (induction xs) simp_all

lemma list_all2_same_refl: "(\<And>x. x \<in> set xs \<Longrightarrow> P x x) \<Longrightarrow> list_all2 P xs xs"
  by (induction xs) simp_all

lemma list_all2_mono_set:
  "list_all2 P xs ys \<Longrightarrow> (\<And>x y. x \<in> set xs \<Longrightarrow> P x y \<Longrightarrow> Q x y) \<Longrightarrow> list_all2 Q xs ys"
  by (induction rule: list_all2_induct) simp_all

lemma process_pledge_rows:
  "list_all2 (step_rel p) (pledges (rs_store st))
     (pledges (rs_store (process_pledge stripe c cid fv vc st p)))"
  by (simp add: process_pledge_def Let_def update_pledge_def resolved_def step_rel_def
      list_all2_map_same map_idI split: sum.split)

lemma run_loop_rows:
  "list_all2 (loop_rel (p_id ` set ps)) (pledges (rs_store st))
     (pledges (rs_store (run_loop stripe c cid fv vc st ps)))"
proof (induction ps arbitrary: st)
  case Nil
  show ?case by (simp add: loop_rel_def list_all2_same_refl)
next
  case (Cons p ps)
  let ?st1 = "process_pledge stripe c cid fv vc st p"
  have step: "list_all2 (step_rel p) (pledges (rs_store st)) (pledges (rs_store ?st1))"
    by (rule process_pledge_rows)
  have rest: "list_all2 (loop_rel (p_id ` set ps)) (pledges (rs_store ?st1))
     (pledges (rs_store (run_loop stripe c cid fv vc ?st1 ps)))"
    by (rule Cons.IH)
  have comp: "loop_rel (p_id ` set (p # ps)) a z"
    if "step_rel p a b" and "loop_rel (p_id ` set ps) b z" for a b z
    using that by (auto simp: step_rel_def loop_rel_def split: if_splits)
  show ?case
    using list_all2_trans [of "step_rel p" "loop_rel (p_id ` set ps)" "loop_rel (p_id ` set (p # ps))", OF comp step rest]
    by simp
qed

lemma not_charged_unresolved: "''not_charged'' \<notin> resolved"
  by (simp add: resolved_def)

lemma loop_rel_weaken:
  assumes "loop_rel (p_id ` set (filter (eligible cid) rows)) row row'"
    and "row \<in> set rows"
  shows "p_id row' = p_id row \<and>
         (eligible cid row \<longrightarrow>
            charge_status row' \<in> {''charged'', ''skipped'', ''failed'', ''requires_action''} \<and>
            charge_status row' \<noteq> ''not_charged'')"
  using assms by (auto simp: loop_rel_def resolved_def)

lemma loop_rel_not_eligible:
  assumes "list_all2 (loop_rel (p_id ` set (filter (eligible cid) rows))) rows rows'"
  shows "filter (eligible cid) rows' = []"
proof -
  have "\<not> eligible cid r'" if "r' \<in> set rows'" for r'
  proof
    assume el: "eligible cid r'"
    from that obtain i where i: "i < length rows'" and ri: "rows' ! i = r'"
      by (auto simp: in_set_conv_nth)
    define r where "r = rows ! i"
    from assms have len: "length rows = length rows'" by (rule list_all2_lengthD)
    from i len have r: "r \<in> set rows" by (simp add: r_def)
    from assms i have "loop_rel (p_id ` set (filter (eligible cid) rows)) (rows ! i) (rows' ! i)"
      by (rule list_all2_nthD2)
    then have rel: "loop_rel (p_id ` set (filter (eligible cid) rows)) r r'"
      by (simp add: r_def ri)
    from el have nc: "charge_status r' = ''not_charged''" by (simp add: eligible_def)
    with rel not_charged_unresolved have same: "r' = r" by (auto simp: loop_rel_def)
    with el r have "p_id r \<in> p_id ` set (filter (eligible cid) rows)" by auto
    with rel have "charge_status r' \<in> resolved" by (simp add: loop_rel_def)
    with nc not_charged_unresolved show False by simp
  qed
  then show ?thesis by (simp add: filter_empty_conv)
qed

text \<open>
  What a completed run went through, and the run from the facts that let it pass.
\<close>

lemma run_charges_completed:
  assumes "run_charges_POST pw stripe db body = (ChargeSummary n, db', att)"
  obtains cid campaign fv where
    "strict_equal (password body) pw"
    "rb_campaign_id body = JString cid" "cid \<noteq> []"
    "select_campaign db cid = Some campaign"
    "final_views campaign = Some fv"
    "n = rs_counts (run_loop stripe campaign cid fv (effective_views_cap (views_cap campaign))
           \<lparr> rs_store = db, rs_counts = zero_counts, rs_attempts = [] \<rparr>
           (filter (eligible cid) (pledges db)))"
    "db' = update_campaign cid (\<lambda>c. c\<lparr> status := ''charged'' \<rparr>)
           (rs_store (run_loop stripe campaign cid fv (effective_views_cap (views_cap campaign))
           \<lparr> rs_store = db, rs_counts = zero_counts, rs_attempts = [] \<rparr>
           (filter (eligible cid) (pledges db))))"
    "att = rs_attempts (run_loop stripe campaign cid fv (effective_views_cap (views_cap campaign))
           \<lparr> rs_store = db, rs_counts = zero_counts, rs_attempts = [] \<rparr>
           (filter (eligible cid) (pledges db)))"
  using assms
  by (auto simp: run_charges_POST_def Let_def split: if_splits json.splits option.splits)

lemma run_charges_accepts:
  assumes "strict_equal (password body) pw"
    and "rb_campaign_id body = JString cid" and "cid \<noteq> []"
    and "select_campaign db cid = Some campaign"
    and "final_views campaign = Some fv"
  shows "run_charges_POST pw stripe db body =
    (let st = run_loop stripe campaign cid fv (effective_views_cap (views_cap campaign))
           \<lparr> rs_store = db, rs_counts = zero_counts, rs_attempts = [] \<rparr>
           (filter (eligible cid) (pledges db))
     in (ChargeSummary (rs_counts st),
         update_campaign cid (\<lambda>c. c\<lparr> status := ''charged'' \<rparr>) (rs_store st),
         rs_attempts st))"
  using assms by (simp add: run_charges_POST_def Let_def)

text \<open>
  The campaign row after the final update.
\<close>

lemma single_map:
  "single (filter (\<lambda>c. c_id c = cid) (map (\<lambda>c. if c_id c = cid then f c else c) cs))
   = map_option f (single (filter (\<lambda>c. c_id c = cid) cs))"
  if "\<And>c. c_id (f c) = c_id c"
proof -
  have "filter (\<lambda>c. c_id c = cid) (map (\<lambda>c. if c_id c = cid then f c else c) cs)
        = map f (filter (\<lambda>c. c_id c = cid) cs)"
    using that by (induction cs) simp_all
  then show ?thesis
    by (simp add: single_def split: list.split)
qed

lemma select_campaign_charged:
  "select_campaign (update_campaign cid (\<lambda>c. c\<lparr> status := ''charged'' \<rparr>) db) cid
   = map_option (\<lambda>c. c\<lparr> status := ''charged'' \<rparr>) (select_campaign db cid)"
  by (simp add: select_campaign_def update_campaign_def single_map)

lemma update_campaign_idem:
  "update_campaign cid (\<lambda>c. c\<lparr> status := ''charged'' \<rparr>)
     (update_campaign cid (\<lambda>c. c\<lparr> status := ''charged'' \<rparr>) db)
   = update_campaign cid (\<lambda>c. c\<lparr> status := ''charged'' \<rparr>) db"
  by (simp add: update_campaign_def comp_def)

text \<open>
  The run on the example store.
\<close>

lemma demo_run_summary:
  "fst (run_charges_POST (Some ''secret'') demo_stripe demo_db (demo_run_body ''c1''))
   = ChargeSummary \<lparr> charged = 1, skipped = 0, failed = 1, requiresAction = 1 \<rparr>"
  by code_simp

lemma demo_run_completes:
  "run_charges_POST (Some ''secret'') demo_stripe demo_db (demo_run_body ''c1'')
   = (ChargeSummary \<lparr> charged = 1, skipped = 0, failed = 1, requiresAction = 1 \<rparr>,
      fst (snd (run_charges_POST (Some ''secret'') demo_stripe demo_db (demo_run_body ''c1''))),
      snd (snd (run_charges_POST (Some ''secret'') demo_stripe demo_db (demo_run_body ''c1''))))"
  using demo_run_summary by (simp add: prod_eq_iff)

lemma demo_run_campaign: "rb_campaign_id (demo_run_body ''c1'') = JString ''c1''"
  by (simp add: demo_run_body_def)

text \<open>
  Claim C3. After a charge run that completes, every pledge row that was eligible when the
  run started (its campaign, setup complete, not charged) is still the row of the same
  pledge and its charge status is one of \<open>charged\<close>, \<open>skipped\<close>, \<open>failed\<close>,
  \<open>requires_action\<close>, hence no longer \<open>not_charged\<close>. The rows before and after the run
  are compared position by position.
\<close>

theorem charge_run_resolves_eligible:
  assumes "run_charges_POST pw stripe db body = (ChargeSummary n, db', att)"
    and "rb_campaign_id body = JString cid"
  shows "list_all2
           (\<lambda>row row'. p_id row' = p_id row \<and>
              (eligible cid row \<longrightarrow>
                 charge_status row' \<in> {''charged'', ''skipped'', ''failed'', ''requires_action''} \<and>
                 charge_status row' \<noteq> ''not_charged''))
           (pledges db) (pledges db')"
proof -
  from assms(1) obtain cid' campaign fv where
    cid': "rb_campaign_id body = JString cid'" and
    db': "db' = update_campaign cid' (\<lambda>c. c\<lparr> status := ''charged'' \<rparr>)
           (rs_store (run_loop stripe campaign cid' fv (effective_views_cap (views_cap campaign))
           \<lparr> rs_store = db, rs_counts = zero_counts, rs_attempts = [] \<rparr>
           (filter (eligible cid') (pledges db))))"
    by (rule run_charges_completed)
  from cid' assms(2) have eq: "cid' = cid" by simp
  have rows: "list_all2 (loop_rel (p_id ` set (filter (eligible cid) (pledges db)))) (pledges db) (pledges db')"
    using run_loop_rows [of "filter (eligible cid) (pledges db)"
        "\<lparr> rs_store = db, rs_counts = zero_counts, rs_attempts = [] \<rparr>" stripe campaign cid fv
        "effective_views_cap (views_cap campaign)"]
    by (simp add: db' eq update_campaign_def)
  show ?thesis
    by (rule list_all2_mono_set [OF rows]) (rule loop_rel_weaken)
qed

text \<open>
  Witness for C3: the run on the example store, whose first three pledges are eligible.
\<close>

theorem charge_run_resolves_eligible_witness:
  "fst (run_charges_POST (Some ''secret'') demo_stripe demo_db (demo_run_body ''c1''))
     = ChargeSummary \<lparr> charged = 1, skipped = 0, failed = 1, requiresAction = 1 \<rparr>
   \<and> map (eligible ''c1'') (pledges demo_db) = [True, True, True, False]
   \<and> list_all2
         (\<lambda>row row'. p_id row' = p_id row \<and>
            (eligible ''c1'' row \<longrightarrow>
               charge_status row' \<in> {''charged'', ''skipped'', ''failed'', ''requires_action''} \<and>
               charge_status row' \<noteq> ''not_charged''))
         (pledges demo_db)
         (pledges (fst (snd (run_charges_POST (Some ''secret'') demo_stripe demo_db
                              (demo_run_body ''c1'')))))"
proof -
  have "map (eligible ''c1'') (pledges demo_db) = [True, True, True, False]"
    by code_simp
  then show ?thesis
    using charge_run_resolves_eligible [OF demo_run_completes demo_run_campaign] demo_run_summary
    by simp
qed

text \<open>
  Claim C4. After a charge run that completes, whatever the provider answered, the campaign
  has status \<open>charged\<close> and none of its pledges is eligible; the same request repeated on the
  store the run left, with any provider, completes with all four counts zero, makes no
  charge call and leaves the store as it is.
\<close>

theorem charge_run_terminal_and_repeatable:
  assumes "run_charges_POST pw stripe db body = (ChargeSummary n, db', att)"
    and "rb_campaign_id body = JString cid"
  shows "(\<exists>c. select_campaign db' cid = Some c \<and> status c = ''charged'')
         \<and> filter (eligible cid) (pledges db') = []
         \<and> run_charges_POST pw stripe2 db' body = (ChargeSummary zero_counts, db', [])"
proof -
  from assms(1) obtain cid' campaign fv where
    auth: "strict_equal (password body) pw" and
    cid': "rb_campaign_id body = JString cid'" and ne: "cid' \<noteq> []" and
    sel: "select_campaign db cid' = Some campaign" and
    fv: "final_views campaign = Some fv" and
    db': "db' = update_campaign cid' (\<lambda>c. c\<lparr> status := ''charged'' \<rparr>)
           (rs_store (run_loop stripe campaign cid' fv (effective_views_cap (views_cap campaign))
           \<lparr> rs_store = db, rs_counts = zero_counts, rs_attempts = [] \<rparr>
           (filter (eligible cid') (pledges db))))"
    by (rule run_charges_completed)
  from cid' assms(2) have eq: "cid' = cid" by simp
  let ?st = "run_loop stripe campaign cid fv (effective_views_cap (views_cap campaign))
           \<lparr> rs_store = db, rs_counts = zero_counts, rs_attempts = [] \<rparr>
           (filter (eligible cid) (pledges db))"
  have camp: "campaigns (rs_store ?st) = campaigns db"
    by (simp add: run_loop_campaigns)
  have "select_campaign (rs_store ?st) cid = select_campaign db cid"
    by (simp add: select_campaign_def camp)
  with sel eq have sel': "select_campaign db' cid = Some (campaign\<lparr> status := ''charged'' \<rparr>)"
    by (simp add: db' select_campaign_charged)
  have rows: "list_all2 (loop_rel (p_id ` set (filter (eligible cid) (pledges db)))) (pledges db) (pledges db')"
    using run_loop_rows [of "filter (eligible cid) (pledges db)"
        "\<lparr> rs_store = db, rs_counts = zero_counts, rs_attempts = [] \<rparr>" stripe campaign cid fv
        "effective_views_cap (views_cap campaign)"]
    by (simp add: db' eq update_campaign_def)
  then have none: "filter (eligible cid) (pledges db') = []"
    by (rule loop_rel_not_eligible)
  have idem: "update_campaign cid (\<lambda>c. c\<lparr> status := ''charged'' \<rparr>) db' = db'"
    by (simp add: db' eq update_campaign_idem)
  have again: "run_charges_POST pw stripe2 db' body = (ChargeSummary zero_counts, db', [])"
    using auth cid' ne sel' fv none idem
    by (simp add: run_charges_accepts [where cid = cid and campaign = "campaign\<lparr> status := ''charged'' \<rparr>" and fv = fv] eq Let_def)
  from sel' none again show ?thesis by simp
qed

text \<open>
  Witness for C4: the run on the example store, then the run repeated.
\<close>

theorem charge_run_terminal_and_repeatable_witness:
  "fst (run_charges_POST (Some ''secret'') demo_stripe demo_db (demo_run_body ''c1''))
     = ChargeSummary \<lparr> charged = 1, skipped = 0, failed = 1, requiresAction = 1 \<rparr>
   \<and> (\<exists>c. select_campaign
              (fst (snd (run_charges_POST (Some ''secret'') demo_stripe demo_db
                           (demo_run_body ''c1'')))) ''c1'' = Some c
            \<and> status c = ''charged'')
   \<and> run_charges_POST (Some ''secret'') demo_stripe
         (fst (snd (run_charges_POST (Some ''secret'') demo_stripe demo_db (demo_run_body ''c1''))))
         (demo_run_body ''c1'')
       = (ChargeSummary zero_counts,
          fst (snd (run_charges_POST (Some ''secret'') demo_stripe demo_db (demo_run_body ''c1''))),
          [])"
  using charge_run_terminal_and_repeatable [OF demo_run_completes demo_run_campaign, of demo_stripe]
    demo_run_summary
  by simp

text \<open>
  Claim C5. When the campaign of the request has no final views, the charge run returns an
  error response, leaves the store as it is and makes no charge call; for an authorised
  request the response is status 400 with the message \<open>final_views not set yet\<close>.
\<close>

theorem charge_run_rejects_unset_final_views:
  assumes "select_campaign db cid = Some campaign"
    and "final_views campaign = None"
    and "rb_campaign_id body = JString cid"
  shows "(\<exists>code msg. run_charges_POST pw stripe db body = (ErrorResponse code msg, db, []))
         \<and> (strict_equal (password body) pw \<and> cid \<noteq> [] \<longrightarrow>
              run_charges_POST pw stripe db body
                = (ErrorResponse 400 ''final_views not set yet'', db, []))"
  using assms by (simp add: run_charges_POST_def Let_def)

text \<open>
  Witness for C5: the open campaign of the example store.
\<close>

theorem charge_run_rejects_unset_final_views_witness:
  "select_campaign demo_db ''c2''
     = Some \<lparr> c_id = ''c2'', c_name = None, views_cap = Some 20000, final_views = None,
              status = ''open'' \<rparr>
   \<and> strict_equal (password (demo_run_body ''c2'')) (Some ''secret'')
   \<and> run_charges_POST (Some ''secret'') demo_stripe demo_db (demo_run_body ''c2'')
       = (ErrorResponse 400 ''final_views not set yet'', demo_db, [])"
proof -
  have sel: "select_campaign demo_db ''c2''
     = Some \<lparr> c_id = ''c2'', c_name = None, views_cap = Some 20000, final_views = None,
              status = ''open'' \<rparr>"
    by (simp add: select_campaign_def demo_db_def single_def)
  have auth: "strict_equal (password (demo_run_body ''c2'')) (Some ''secret'')"
    by (simp add: demo_run_body_def)
  have "rb_campaign_id (demo_run_body ''c2'') = JString ''c2''"
    by (simp add: demo_run_body_def)
  from charge_run_rejects_unset_final_views [OF sel _ this, of "Some ''secret''" demo_stripe] auth sel
  show ?thesis by simp
qed

text \<open>
  Claim C10. For a charge run that completes, the four counts add up to the number of
  pledges the eligibility filter selected before the loop, and every iteration of the loop
  raises exactly one of the four counters, by one.
\<close>

theorem charge_run_counts_partition:
  assumes "run_charges_POST pw stripe db body = (ChargeSummary n, db', att)"
    and "rb_campaign_id body = JString cid"
  shows "charged n + skipped n + failed n + requiresAction n
           = length (filter (eligible cid) (pledges db))
         \<and> (\<forall>c fv vc st p.
               rs_counts (process_pledge stripe c cid fv vc st p) \<in>
                 {(rs_counts st)\<lparr> charged := charged (rs_counts st) + 1 \<rparr>,
                  (rs_counts st)\<lparr> skipped := skipped (rs_counts st) + 1 \<rparr>,
                  (rs_counts st)\<lparr> failed := failed (rs_counts st) + 1 \<rparr>,
                  (rs_counts st)\<lparr> requiresAction := requiresAction (rs_counts st) + 1 \<rparr>})"
proof -
  from assms(1) obtain cid' campaign fv where
    cid': "rb_campaign_id body = JString cid'" and
    n: "n = rs_counts (run_loop stripe campaign cid' fv (effective_views_cap (views_cap campaign))
           \<lparr> rs_store = db, rs_counts = zero_counts, rs_attempts = [] \<rparr>
           (filter (eligible cid') (pledges db)))"
    by (rule run_charges_completed)
  from cid' assms(2) have eq: "cid' = cid" by simp
  have "charged n + skipped n + failed n + requiresAction n
           = length (filter (eligible cid) (pledges db))"
    using run_loop_counts [of stripe campaign cid fv "effective_views_cap (views_cap campaign)"
        "\<lparr> rs_store = db, rs_counts = zero_counts, rs_attempts = [] \<rparr>"
        "filter (eligible cid) (pledges db)"]
    by (simp add: n eq zero_counts_def)
  then show ?thesis
    using process_pledge_one_counter by blast
qed

text \<open>
  Witness for C10: on the example store one pledge is charged, one fails, one requires
  action, and three were eligible.
\<close>

theorem charge_run_counts_partition_witness:
  "fst (run_charges_POST (Some ''secret'') demo_stripe demo_db (demo_run_body ''c1''))
     = ChargeSummary \<lparr> charged = 1, skipped = 0, failed = 1, requiresAction = 1 \<rparr>
   \<and> length (filter (eligible ''c1'') (pledges demo_db)) = 3"
proof -
  have "charged \<lparr> charged = 1, skipped = 0, failed = 1, requiresAction = 1 \<rparr>
        + skipped \<lparr> charged = 1, skipped = 0, failed = 1, requiresAction = 1 \<rparr>
        + failed \<lparr> charged = 1, skipped = 0, failed = 1, requiresAction = 1 \<rparr>
        + requiresAction \<lparr> charged = 1, skipped = 0, failed = 1, requiresAction = 1 \<rparr>
        = length (filter (eligible ''c1'') (pledges demo_db))"
    using charge_run_counts_partition [OF demo_run_completes demo_run_campaign] by blast
  then show ?thesis using demo_run_summary by simp
qed

text \<open>
  The table after an iteration is the table with every row taken through \<open>row_after\<close>;
  when the selected pledges have distinct ids, a row of a selected pledge is changed by the
  iteration of that pledge and by no other.
\<close>

lemma process_pledge_map:
  "pledges (rs_store (process_pledge stripe c cid fv vc st p))
   = map (row_after stripe c cid fv vc p) (pledges (rs_store st))"
  by (simp add: row_after_def process_pledge_def Let_def update_pledge_def split: sum.split)

lemma row_after_other:
  "p_id row \<noteq> p_id p \<Longrightarrow> row_after stripe c cid fv vc p row = row"
  by (simp add: row_after_def process_pledge_def Let_def update_pledge_def split: sum.split)

lemma row_after_id: "p_id (row_after stripe c cid fv vc p row) = p_id row"
  by (simp add: row_after_def process_pledge_def Let_def update_pledge_def split: sum.split)

lemma run_loop_map:
  "pledges (rs_store (run_loop stripe c cid fv vc st ps))
   = map (\<lambda>row. foldl (\<lambda>r p. row_after stripe c cid fv vc p r) row ps) (pledges (rs_store st))"
  by (induction ps arbitrary: st) (simp_all add: process_pledge_map)

lemma foldl_row_after_others:
  "\<forall>q \<in> set ps. p_id row \<noteq> p_id q \<Longrightarrow>
   foldl (\<lambda>r p. row_after stripe c cid fv vc p r) row ps = row"
  by (induction ps) (simp_all add: row_after_other)

lemma foldl_row_after_once:
  assumes "distinct (map p_id ps)" and "p \<in> set ps" and "p_id row = p_id p"
  shows "foldl (\<lambda>r q. row_after stripe c cid fv vc q r) row ps = row_after stripe c cid fv vc p row"
  using assms
proof (induction ps arbitrary: row)
  case Nil
  then show ?case by simp
next
  case (Cons q qs)
  show ?case
  proof (cases "q = p")
    case True
    have "\<forall>x \<in> set qs. p_id (row_after stripe c cid fv vc p row) \<noteq> p_id x"
      using Cons.prems True by (force simp: row_after_id)
    then show ?thesis
      using True by (simp add: foldl_row_after_others)
  next
    case False
    with Cons.prems have mem: "p \<in> set qs" and neq: "p_id q \<noteq> p_id row" by auto
    from neq have "row_after stripe c cid fv vc q row = row"
      by (simp add: row_after_other)
    with Cons.IH [of row] Cons.prems mem show ?thesis by simp
  qed
qed

lemma charge_run_final_row:
  assumes "run_charges_POST pw stripe db body = (ChargeSummary n, db', att)"
    and "rb_campaign_id body = JString cid"
    and "select_campaign db cid = Some campaign"
    and "i < length (pledges db)" and "eligible cid (pledges db ! i)"
    and "distinct (map p_id (filter (eligible cid) (pledges db)))"
  shows "pledges db' ! i =
           row_after stripe campaign cid (the (final_views campaign))
             (effective_views_cap (views_cap campaign)) (pledges db ! i) (pledges db ! i)"
proof -
  from assms(1) obtain cid' campaign' fv where
    cid': "rb_campaign_id body = JString cid'" and
    sel: "select_campaign db cid' = Some campaign'" and
    fv: "final_views campaign' = Some fv" and
    db': "db' = update_campaign cid' (\<lambda>c. c\<lparr> status := ''charged'' \<rparr>)
           (rs_store (run_loop stripe campaign' cid' fv (effective_views_cap (views_cap campaign'))
           \<lparr> rs_store = db, rs_counts = zero_counts, rs_attempts = [] \<rparr>
           (filter (eligible cid') (pledges db))))"
    by (rule run_charges_completed)
  from cid' assms(2) have eq: "cid' = cid" by simp
  with sel assms(3) have ceq: "campaign' = campaign" by simp
  have mem: "pledges db ! i \<in> set (filter (eligible cid) (pledges db))"
    using assms(4,5) by simp
  have "pledges db' ! i =
          foldl (\<lambda>r p. row_after stripe campaign cid fv (effective_views_cap (views_cap campaign)) p r)
            (pledges db ! i) (filter (eligible cid) (pledges db))"
    using assms(4) by (simp add: db' eq ceq update_campaign_def run_loop_map)
  also have "\<dots> = row_after stripe campaign cid fv (effective_views_cap (views_cap campaign))
                    (pledges db ! i) (pledges db ! i)"
    by (rule foldl_row_after_once [OF assms(6) mem refl])
  finally show ?thesis using fv ceq by simp
qed

text \<open>
  Claim C6. Take a pledge with a positive amount and with customer and payment method
  present, whose charge call fails with error \<open>err\<close>. When \<open>err\<close> has the code
  \<open>authentication_required\<close> or carries a payment intent of status \<open>requires_action\<close>, the
  iteration raises \<open>requiresAction\<close> by one and sets the rows of the pledge to charge status
  \<open>requires_action\<close>; otherwise it raises \<open>failed\<close> by one and sets them to \<open>failed\<close>. In
  both cases it stores the error's message (\<open>Charge failed\<close> when it has none) and the id of
  the error's payment intent (null when it has none), next to the computed views and amount,
  and it changes nothing else but the log of charge calls.
\<close>

theorem failed_charge_classified:
  assumes "0 < amountCents (pledge_amount fv vc pledge)"
    and "\<not> falsy (stripe_customer_id pledge)"
    and "\<not> falsy (stripe_payment_method_id pledge)"
    and "paymentIntents_create stripe
           (charge_request_for campaign cid (pledge_amount fv vc pledge) pledge) = Inl err"
  shows "process_pledge stripe campaign cid fv vc st pledge =
           st\<lparr> rs_counts :=
                 (if err_code err = Some ''authentication_required'' \<or>
                     (\<exists>intent. err_payment_intent err = Some intent \<and>
                                pi_status intent = Some ''requires_action'')
                  then (rs_counts st)\<lparr> requiresAction := requiresAction (rs_counts st) + 1 \<rparr>
                  else (rs_counts st)\<lparr> failed := failed (rs_counts st) + 1 \<rparr>),
               rs_store :=
                 update_pledge (p_id pledge)
                   (\<lambda>p. p\<lparr> computed_views := Some (computedViews (pledge_amount fv vc pledge)),
                             computed_amount_cents := Some (amountCents (pledge_amount fv vc pledge)),
                             charge_status :=
                               (if err_code err = Some ''authentication_required'' \<or>
                                   (\<exists>intent. err_payment_intent err = Some intent \<and>
                                              pi_status intent = Some ''requires_action'')
                                then ''requires_action'' else ''failed''),
                             error_message :=
                               Some (case err_message err of None \<Rightarrow> ''Charge failed'' | Some m \<Rightarrow> m),
                             stripe_payment_intent_id :=
                               (case err_payment_intent err of
                                  None \<Rightarrow> None | Some intent \<Rightarrow> pi_id intent) \<rparr>)
                   (rs_store st),
               rs_attempts := rs_attempts st @
                 [charge_request_for campaign cid (pledge_amount fv vc pledge) pledge] \<rparr>"
proof -
  have na: "needsAction err \<longleftrightarrow>
              (err_code err = Some ''authentication_required'' \<or>
               (\<exists>intent. err_payment_intent err = Some intent \<and>
                          pi_status intent = Some ''requires_action''))"
    by (simp add: needsAction_def split: option.split)
  have upd: "update_pledge pid g (update_pledge pid f db) = update_pledge pid (\<lambda>p. g (f p)) db"
    if "\<And>p. p_id (f p) = p_id p" for pid f g db
    using that by (simp add: update_pledge_def comp_def)
  from assms show ?thesis
    unfolding na [symmetric]
    by (simp add: process_pledge_def pledge_amount_def Let_def upd)
qed

text \<open>
  Witness for C6: the second pledge of the example store, declined with
  \<open>authentication_required\<close>.
\<close>

theorem failed_charge_classified_witness:
  "0 < amountCents (pledge_amount 15000 20000 (pledges demo_db ! 1))
   \<and> \<not> falsy (stripe_customer_id (pledges demo_db ! 1))
   \<and> \<not> falsy (stripe_payment_method_id (pledges demo_db ! 1))
   \<and> paymentIntents_create demo_stripe
         (charge_request_for (hd (campaigns demo_db)) ''c1''
            (pledge_amount 15000 20000 (pledges demo_db ! 1)) (pledges demo_db ! 1))
       = Inl demo_decline
   \<and> rs_counts (process_pledge demo_stripe (hd (campaigns demo_db)) ''c1'' 15000 20000
         \<lparr> rs_store = demo_db, rs_counts = zero_counts, rs_attempts = [] \<rparr> (pledges demo_db ! 1))
       = \<lparr> charged = 0, skipped = 0, failed = 0, requiresAction = 1 \<rparr>
   \<and> map (\<lambda>p. (charge_status p, error_message p, stripe_payment_intent_id p))
         (pledges (rs_store (process_pledge demo_stripe (hd (campaigns demo_db)) ''c1'' 15000 20000
            \<lparr> rs_store = demo_db, rs_counts = zero_counts, rs_attempts = [] \<rparr>
            (pledges demo_db ! 1))))
       = [(''not_charged'', None, None),
          (''requires_action'', Some ''Authentication required'', Some ''pi_2''),
          (''not_charged'', None, None),
          (''not_charged'', None, None)]"
proof -
  have amt: "0 < amountCents (pledge_amount 15000 20000 (pledges demo_db ! 1))"
    by code_simp
  have cus: "\<not> falsy (stripe_customer_id (pledges demo_db ! 1))"
    by code_simp
  have pm: "\<not> falsy (stripe_payment_method_id (pledges demo_db ! 1))"
    by code_simp
  have decl: "paymentIntents_create demo_stripe
         (charge_request_for (hd (campaigns demo_db)) ''c1''
            (pledge_amount 15000 20000 (pledges demo_db ! 1)) (pledges demo_db ! 1))
       = Inl demo_decline"
    by (simp add: demo_stripe_def charge_request_for_def demo_db_def demo_pledge_def)
  note step = failed_charge_classified [OF amt cus pm decl,
      of "\<lparr> rs_store = demo_db, rs_counts = zero_counts, rs_attempts = [] \<rparr>"]
  have cnt: "rs_counts (process_pledge demo_stripe (hd (campaigns demo_db)) ''c1'' 15000 20000
         \<lparr> rs_store = demo_db, rs_counts = zero_counts, rs_attempts = [] \<rparr> (pledges demo_db ! 1))
       = \<lparr> charged = 0, skipped = 0, failed = 0, requiresAction = 1 \<rparr>"
    unfolding step by (simp add: demo_decline_def zero_counts_def)
  have rows: "map (\<lambda>p. (charge_status p, error_message p, stripe_payment_intent_id p))
         (pledges (rs_store (process_pledge demo_stripe (hd (campaigns demo_db)) ''c1'' 15000 20000
            \<lparr> rs_store = demo_db, rs_counts = zero_counts, rs_attempts = [] \<rparr>
            (pledges demo_db ! 1))))
       = [(''not_charged'', None, None),
          (''requires_action'', Some ''Authentication required'', Some ''pi_2''),
          (''not_charged'', None, None),
          (''not_charged'', None, None)]"
    unfolding step
    by (simp add: demo_decline_def update_pledge_def demo_db_def demo_pledge_def)
  from amt cus pm decl cnt rows show ?thesis by simp
qed

text \<open>
  The same at the end of a completed run, when the selected pledges have distinct ids: the
  row of the pledge is left as the failed charge wrote it.
\<close>

lemma failed_charge_final_row:
  assumes "run_charges_POST pw stripe db body = (ChargeSummary n, db', att)"
    and "rb_campaign_id body = JString cid"
    and "select_campaign db cid = Some campaign"
    and "final_views campaign = Some fv"
    and "vc = effective_views_cap (views_cap campaign)"
    and "i < length (pledges db)" and "pledges db ! i = pledge" and "eligible cid pledge"
    and "distinct (map p_id (filter (eligible cid) (pledges db)))"
    and "0 < amountCents (pledge_amount fv vc pledge)"
    and "\<not> falsy (stripe_customer_id pledge)"
    and "\<not> falsy (stripe_payment_method_id pledge)"
    and "paymentIntents_create stripe
           (charge_request_for campaign cid (pledge_amount fv vc pledge) pledge) = Inl err"
  shows "pledges db' ! i =
           pledge\<lparr> computed_views := Some (computedViews (pledge_amount fv vc pledge)),
                   computed_amount_cents := Some (amountCents (pledge_amount fv vc pledge)),
                   charge_status := (if needsAction err then ''requires_action'' else ''failed''),
                   error_message :=
                     Some (case err_message err of None \<Rightarrow> ''Charge failed'' | Some m \<Rightarrow> m),
                   stripe_payment_intent_id :=
                     (case err_payment_intent err of None \<Rightarrow> None | Some intent \<Rightarrow> pi_id intent) \<rparr>"
proof -
  have "pledges db' ! i = row_after stripe campaign cid fv vc pledge pledge"
    using charge_run_final_row [OF assms(1,2,3,6) _ assms(9)] assms(4,5,7,8) by simp
  also have "\<dots> = pledge\<lparr> computed_views := Some (computedViews (pledge_amount fv vc pledge)),
                   computed_amount_cents := Some (amountCents (pledge_amount fv vc pledge)),
                   charge_status := (if needsAction err then ''requires_action'' else ''failed''),
                   error_message :=
                     Some (case err_message err of None \<Rightarrow> ''Charge failed'' | Some m \<Rightarrow> m),
                   stripe_payment_intent_id :=
                     (case err_payment_intent err of None \<Rightarrow> None | Some intent \<Rightarrow> pi_id intent) \<rparr>"
    using assms(10-13)
    by (simp add: row_after_def process_pledge_def pledge_amount_def Let_def update_pledge_def)
  finally show ?thesis .
qed

subsection \<open>Properties of setup reconciliation\<close>

text \<open>
  The updates of the reconcilers keep the id of a row and are idempotent.
\<close>

lemma update_pledge_idem:
  assumes "\<And>p. f (f p) = f p" and "\<And>p. p_id (f p) = p_id p"
  shows "update_pledge pid f (update_pledge pid f db) = update_pledge pid f db"
  using assms by (simp add: update_pledge_def comp_def)

lemma update_pledge_ids: 
  assumes "\<And>p. p_id (f p) = p_id p"
  shows "map p_id (pledges (update_pledge pid f db)) = map p_id (pledges db)"
  using assms by (simp add: update_pledge_def comp_def)

lemma update_pledge_rows:
  "list_all (\<lambda>p. p_id p = pid \<longrightarrow> P p) (pledges (update_pledge pid f db))"
  if "\<And>p. p_id (f p) = pid \<Longrightarrow> P (f p)"
  using that by (auto simp: update_pledge_def list_all_iff)

lemma mark_failed_idem: "mark_failed msg (mark_failed msg p) = mark_failed msg p"
  by (simp add: mark_failed_def)

lemma mark_failed_id: "p_id (mark_failed msg p) = p_id p"
  by (simp add: mark_failed_def)

lemma mark_complete_idem: "mark_complete c m (mark_complete c m p) = mark_complete c m p"
  by (simp add: mark_complete_def)

lemma mark_complete_id: "p_id (mark_complete c m p) = p_id p"
  by (simp add: mark_complete_def)

lemma mark_complete_webhook_idem:
  "mark_complete_webhook c m (mark_complete_webhook c m p) = mark_complete_webhook c m p"
  by (simp add: mark_complete_webhook_def)

lemma mark_complete_webhook_id: "p_id (mark_complete_webhook c m p) = p_id p"
  by (simp add: mark_complete_webhook_def)

lemmas mark_simps = mark_failed_idem mark_failed_id mark_complete_idem mark_complete_id
  mark_complete_webhook_idem mark_complete_webhook_id

lemma falsy_Some: "\<not> falsy v \<Longrightarrow> \<exists>s. v = Some s \<and> s \<noteq> []"
  by (cases v) (simp_all add: falsy_def)

text \<open>
  The handlers that find the pledge in the metadata do not read the store: a second call
  writes what the first call wrote.
\<close>

lemma confirm_session_idem:
  "confirm_session_POST stripe (snd (confirm_session_POST stripe db sid)) sid
   = confirm_session_POST stripe db sid"
  by (simp add: confirm_session_POST_def Let_def update_pledge_idem mark_simps split: sum.split)

lemma webhook_idem:
  "webhook_POST stripe (snd (webhook_POST stripe db req)) req = webhook_POST stripe db req"
  by (simp add: webhook_POST_def Let_def update_pledge_idem mark_simps
      split: sum.split option.split)

lemma confirm_session_ids:
  "map p_id (pledges (snd (confirm_session_POST stripe db sid))) = map p_id (pledges db)"
  by (simp add: confirm_session_POST_def Let_def update_pledge_ids mark_simps split: sum.split)

lemma webhook_ids:
  "map p_id (pledges (snd (webhook_POST stripe db req))) = map p_id (pledges db)"
  by (simp add: webhook_POST_def Let_def update_pledge_ids mark_simps split: sum.split option.split)

lemma confirm_ids:
  "map p_id (pledges (snd (confirm_POST stripe db body))) = map p_id (pledges db)"
  by (simp add: confirm_POST_def Let_def update_pledge_ids mark_simps split: sum.split prod.split)

text \<open>
  The handler that may look the pledge up by customer reads the store. Updating the rows of
  the pledge it found does not change what the lookup finds.
\<close>

lemma latest_after_update:
  assumes keep: "\<And>p. p_id (f p) = p_id p" "\<And>p. created_at (f p) = created_at p"
    and grow: "\<And>p. m p \<Longrightarrow> m (f p)"
  shows "later_or_same pid (latest (filter m rows))
           (latest (filter m (map (\<lambda>p. if p_id p = pid then f p else p) rows)))"
proof (induction rows)
  case Nil
  show ?case by (simp add: later_or_same_def)
next
  case (Cons r rows)
  then show ?case
    using keep [of r] grow [of r]
    by (cases "m r"; cases "m (f r)"; cases "p_id r = pid")
      (auto simp: later_or_same_def split: option.splits if_splits)
qed

lemma latest_pledge_after_update:
  assumes "latest_pledge_of_customer db cust = Some pid"
    and "\<And>p. p_id (f p) = p_id p" and "\<And>p. created_at (f p) = created_at p"
    and "\<And>p. stripe_customer_id p = Some cust \<Longrightarrow> stripe_customer_id (f p) = Some cust"
  shows "latest_pledge_of_customer (update_pledge pid f db) cust = Some pid"
proof -
  have "later_or_same pid (latest (filter (\<lambda>p. stripe_customer_id p = Some cust) (pledges db)))
          (latest (filter (\<lambda>p. stripe_customer_id p = Some cust)
             (map (\<lambda>p. if p_id p = pid then f p else p) (pledges db))))"
    by (rule latest_after_update) (use assms(2-4) in auto)
  with assms(1) show ?thesis
    by (auto simp: latest_pledge_of_customer_def update_pledge_def later_or_same_def
        split: option.splits)
qed

lemma confirm_idem:
  "confirm_POST stripe (snd (confirm_POST stripe db body)) body = confirm_POST stripe db body"
proof (cases "resolve_setup stripe body")
  case (Inl resp)
  then show ?thesis by (simp add: confirm_POST_def)
next
  case (Inr t)
  obtain pledgeId0 customerId0 setupIntentId where t: "t = (pledgeId0, customerId0, setupIntentId)"
    by (cases t)
  show ?thesis
  proof (cases "setupIntents_retrieve stripe setupIntentId")
    case (Inl e)
    with Inr t show ?thesis by (simp add: confirm_POST_def)
  next
    case (Inr setupIntent)
    define customerId where
      "customerId = (if falsy customerId0 then getStringId (si_customer setupIntent) else customerId0)"
    define paymentMethodId where "paymentMethodId = getStringId (si_payment_method setupIntent)"
    define pledgeId1 where
      "pledgeId1 = (if falsy pledgeId0 then metadata_get (si_metadata setupIntent) ''pledge_id''
                    else pledgeId0)"
    define look where "look = (falsy pledgeId1 \<and> \<not> falsy customerId)"
    define pledgeId where
      "pledgeId = (\<lambda>d. if look then latest_pledge_of_customer d (the customerId) else pledgeId1)"
    define f where
      "f = (if falsy paymentMethodId then mark_failed ''Missing payment method on setup completion''
            else mark_complete customerId paymentMethodId)"
    have run: "confirm_POST stripe d body =
        (if falsy (pledgeId d) then (ErrorResponse 409 ''Unable to locate pledge for this setup'', d)
         else (if falsy paymentMethodId
               then ErrorResponse 409 ''Setup completed without payment method''
               else ConfirmOk (the (pledgeId d)),
               update_pledge (the (pledgeId d)) f d))" for d
      using \<open>resolve_setup stripe body = Inr t\<close> t Inr
      by (simp add: confirm_POST_def Let_def customerId_def paymentMethodId_def pledgeId1_def
          pledgeId_def look_def f_def)
    have f_id: "p_id (f p) = p_id p" and f_at: "created_at (f p) = created_at p"
      and f_idem: "f (f p) = f p" for p
      by (simp_all add: f_def mark_failed_def mark_complete_def)
    show ?thesis
    proof (cases "falsy (pledgeId db)")
      case True
      then show ?thesis by (simp add: run)
    next
      case False
      then obtain pid where pid: "pledgeId db = Some pid" and "pid \<noteq> []"
        using falsy_Some by blast
      have same: "pledgeId (update_pledge pid f db) = Some pid"
      proof (cases look)
        case True
        then obtain cust where cust: "customerId = Some cust"
          using falsy_Some by (auto simp: look_def)
        have f_cust: "stripe_customer_id (f p) = Some cust" if "stripe_customer_id p = Some cust" for p
          using that by (simp add: f_def mark_failed_def mark_complete_def cust)
        from True pid cust have "latest_pledge_of_customer db cust = Some pid"
          by (simp add: pledgeId_def)
        then have "latest_pledge_of_customer (update_pledge pid f db) cust = Some pid"
          using f_id f_at f_cust by (rule latest_pledge_after_update)
        with True cust show ?thesis by (simp add: pledgeId_def)
      next
        case False
        with pid show ?thesis by (simp add: pledgeId_def)
      qed
      have "update_pledge pid f (update_pledge pid f db) = update_pledge pid f db"
        using f_idem f_id by (rule update_pledge_idem)
      with False pid same show ?thesis
        by (simp add: run falsy_def)
    qed
  qed
qed

text \<open>
  What a successful confirmation leaves in the rows of its pledge.
\<close>

lemma confirm_session_ok_rows:
  assumes "fst (confirm_session_POST stripe db sid) = ConfirmOk pid"
  shows "\<exists>c m. \<not> falsy c \<and> \<not> falsy m \<and>
           list_all (\<lambda>p. p_id p = pid \<longrightarrow>
                      setup_status p = ''complete'' \<and> stripe_customer_id p = c \<and>
                      stripe_payment_method_id p = m \<and> error_message p = None)
             (pledges (snd (confirm_session_POST stripe db sid)))"
proof -
  from assms obtain c m where ok: "\<not> falsy c" "\<not> falsy m"
    and res: "snd (confirm_session_POST stripe db sid) = update_pledge pid (mark_complete c m) db"
    by (simp add: confirm_session_POST_def Let_def split: sum.splits if_splits) blast
  have "list_all (\<lambda>p. p_id p = pid \<longrightarrow>
                      setup_status p = ''complete'' \<and> stripe_customer_id p = c \<and>
                      stripe_payment_method_id p = m \<and> error_message p = None)
          (pledges (update_pledge pid (mark_complete c m) db))"
    by (rule update_pledge_rows) (simp add: mark_complete_def)
  with ok res show ?thesis by auto
qed

lemma resolve_setup_error:
  "resolve_setup stripe body = Inl resp \<Longrightarrow> \<exists>code msg. resp = ErrorResponse code msg"
  by (auto simp: resolve_setup_def Let_def split: if_splits sum.splits)

lemma confirm_ok_rows:
  assumes "fst (confirm_POST stripe db body) = ConfirmOk pid"
  shows "\<exists>c m. \<not> falsy m \<and>
           list_all (\<lambda>p. p_id p = pid \<longrightarrow>
                      setup_status p = ''complete'' \<and> stripe_customer_id p = c \<and>
                      stripe_payment_method_id p = m \<and> error_message p = None)
             (pledges (snd (confirm_POST stripe db body)))"
proof -
  from assms obtain c m where ok: "\<not> falsy m"
    and res: "snd (confirm_POST stripe db body) = update_pledge pid (mark_complete c m) db"
    by (auto simp: confirm_POST_def Let_def split: sum.splits if_splits prod.splits
        dest: resolve_setup_error)
  have "list_all (\<lambda>p. p_id p = pid \<longrightarrow>
                      setup_status p = ''complete'' \<and> stripe_customer_id p = c \<and>
                      stripe_payment_method_id p = m \<and> error_message p = None)
          (pledges (update_pledge pid (mark_complete c m) db))"
    by (rule update_pledge_rows) (simp add: mark_complete_def)
  with ok res show ?thesis by auto
qed

text \<open>
  The confirmations on the example store.
\<close>

lemma demo_confirm_ok:
  "fst (confirm_POST demo_setup_stripe demo_db demo_confirm_body) = ConfirmOk ''p4''"
  by code_simp

lemma demo_confirm_session_ok:
  "fst (confirm_session_POST demo_setup_stripe demo_db (JString ''cs_4'')) = ConfirmOk ''p4''"
  by code_simp

lemma demo_confirm_rows:
  "map (\<lambda>p. (p_id p, setup_status p, stripe_customer_id p, stripe_payment_method_id p))
     (pledges (snd (confirm_POST demo_setup_stripe demo_db demo_confirm_body)))
   = [(''p1'', ''complete'', Some ''cus_p1'', Some ''pm_1''),
      (''p2'', ''complete'', Some ''cus_p2'', Some ''pm_2''),
      (''p3'', ''complete'', Some ''cus_p3'', None),
      (''p4'', ''complete'', Some ''cus_p4'', Some ''pm_4'')]"
  by code_simp

text \<open>
  Claim C8. Setup reconciliation is idempotent. For each of the three handlers, a second
  call with the same input on the store the first call left returns the same response and
  leaves that store as it is; no call adds or removes a pledge row; and when a confirmation
  succeeds for pledge \<open>pid\<close>, every row of \<open>pid\<close> has setup status \<open>complete\<close>, no error
  message, and one customer id and one payment method id, which the second call therefore
  finds and leaves in place.
\<close>

theorem setup_reconciliation_idempotent:
  "confirm_session_POST stripe (snd (confirm_session_POST stripe db sid)) sid
     = confirm_session_POST stripe db sid
   \<and> confirm_POST stripe (snd (confirm_POST stripe db body)) body = confirm_POST stripe db body
   \<and> webhook_POST stripe (snd (webhook_POST stripe db req)) req = webhook_POST stripe db req
   \<and> map p_id (pledges (snd (confirm_session_POST stripe db sid))) = map p_id (pledges db)
   \<and> map p_id (pledges (snd (confirm_POST stripe db body))) = map p_id (pledges db)
   \<and> map p_id (pledges (snd (webhook_POST stripe db req))) = map p_id (pledges db)
   \<and> (\<forall>pid. fst (confirm_session_POST stripe db sid) = ConfirmOk pid \<longrightarrow>
          (\<exists>c m. \<not> falsy c \<and> \<not> falsy m \<and>
             list_all (\<lambda>p. p_id p = pid \<longrightarrow>
                        setup_status p = ''complete'' \<and> stripe_customer_id p = c \<and>
                        stripe_payment_method_id p = m \<and> error_message p = None)
               (pledges (snd (confirm_session_POST stripe db sid)))))
   \<and> (\<forall>pid. fst (confirm_POST stripe db body) = ConfirmOk pid \<longrightarrow>
          (\<exists>c m. \<not> falsy m \<and>
             list_all (\<lambda>p. p_id p = pid \<longrightarrow>
                        setup_status p = ''complete'' \<and> stripe_customer_id p = c \<and>
                        stripe_payment_method_id p = m \<and> error_message p = None)
               (pledges (snd (confirm_POST stripe db body)))))"
proof (intro conjI allI impI)
  show "confirm_session_POST stripe (snd (confirm_session_POST stripe db sid)) sid
     = confirm_session_POST stripe db sid"
    by (rule confirm_session_idem)
  show "confirm_POST stripe (snd (confirm_POST stripe db body)) body = confirm_POST stripe db body"
    by (rule confirm_idem)
  show "webhook_POST stripe (snd (webhook_POST stripe db req)) req = webhook_POST stripe db req"
    by (rule webhook_idem)
  show "map p_id (pledges (snd (confirm_session_POST stripe db sid))) = map p_id (pledges db)"
    by (rule confirm_session_ids)
  show "map p_id (pledges (snd (confirm_POST stripe db body))) = map p_id (pledges db)"
    by (rule confirm_ids)
  show "map p_id (pledges (snd (webhook_POST stripe db req))) = map p_id (pledges db)"
    by (rule webhook_ids)
next
  fix pid
  assume "fst (confirm_session_POST stripe db sid) = ConfirmOk pid"
  then show "\<exists>c m. \<not> falsy c \<and> \<not> falsy m \<and>
             list_all (\<lambda>p. p_id p = pid \<longrightarrow>
                        setup_status p = ''complete'' \<and> stripe_customer_id p = c \<and>
                        stripe_payment_method_id p = m \<and> error_message p = None)
               (pledges (snd (confirm_session_POST stripe db sid)))"
    by (rule confirm_session_ok_rows)
next
  fix pid
  assume "fst (confirm_POST stripe db body) = ConfirmOk pid"
  then show "\<exists>c m. \<not> falsy m \<and>
             list_all (\<lambda>p. p_id p = pid \<longrightarrow>
                        setup_status p = ''complete'' \<and> stripe_customer_id p = c \<and>
                        stripe_payment_method_id p = m \<and> error_message p = None)
               (pledges (snd (confirm_POST stripe db body)))"
    by (rule confirm_ok_rows)
qed

text \<open>
  Witness for C8: the fourth pledge of the example store confirmed by its session id,
  twice.
\<close>

theorem setup_reconciliation_idempotent_witness:
  "fst (confirm_POST demo_setup_stripe demo_db demo_confirm_body) = ConfirmOk ''p4''
   \<and> fst (confirm_session_POST demo_setup_stripe demo_db (JString ''cs_4'')) = ConfirmOk ''p4''
   \<and> confirm_POST demo_setup_stripe
         (snd (confirm_POST demo_setup_stripe demo_db demo_confirm_body)) demo_confirm_body
       = confirm_POST demo_setup_stripe demo_db demo_confirm_body
   \<and> confirm_session_POST demo_setup_stripe
         (snd (confirm_session_POST demo_setup_stripe demo_db (JString ''cs_4''))) (JString ''cs_4'')
       = confirm_session_POST demo_setup_stripe demo_db (JString ''cs_4'')
   \<and> map (\<lambda>p. (p_id p, setup_status p, stripe_customer_id p, stripe_payment_method_id p))
         (pledges (snd (confirm_POST demo_setup_stripe demo_db demo_confirm_body)))
       = [(''p1'', ''complete'', Some ''cus_p1'', Some ''pm_1''),
          (''p2'', ''complete'', Some ''cus_p2'', Some ''pm_2''),
          (''p3'', ''complete'', Some ''cus_p3'', None),
          (''p4'', ''complete'', Some ''cus_p4'', Some ''pm_4'')]
   \<and> (\<exists>c m. \<not> falsy m \<and>
          list_all (\<lambda>p. p_id p = ''p4'' \<longrightarrow>
                     setup_status p = ''complete'' \<and> stripe_customer_id p = c \<and>
                     stripe_payment_method_id p = m \<and> error_message p = None)
            (pledges (snd (confirm_POST demo_setup_stripe demo_db demo_confirm_body))))"
  using setup_reconciliation_idempotent
    [of demo_setup_stripe demo_db "JString ''cs_4''" demo_confirm_body demo_webhook_request]
    demo_confirm_ok demo_confirm_session_ok demo_confirm_rows
  by blast

text \<open>
  Claim C7 says that every setup reconciliation, from the webhook or from the client, fails
  with a provider-unavailable outcome and leaves the pledges alone when the setup intent
  cannot be fetched. The webhook handler catches the failure, marks the pledge as failed
  with the error's message and acknowledges the event.
\<close>

theorem webhook_records_unavailable_counterexample:
  "setupIntents_retrieve demo_down_stripe ''seti_4'' = Inl (Some ''connection error'')
   \<and> map (\<lambda>p. (p_id p, setup_status p, error_message p)) (pledges demo_db)
       = [(''p1'', ''complete'', None), (''p2'', ''complete'', None),
          (''p3'', ''complete'', None), (''p4'', ''pending'', None)]
   \<and> fst (webhook_POST demo_down_stripe demo_db demo_webhook_request) = Received
   \<and> map (\<lambda>p. (p_id p, setup_status p, error_message p))
         (pledges (snd (webhook_POST demo_down_stripe demo_db demo_webhook_request)))
       = [(''p1'', ''complete'', None), (''p2'', ''complete'', None),
          (''p3'', ''complete'', None), (''p4'', ''failed'', Some ''connection error'')]"
proof (intro conjI)
  show "setupIntents_retrieve demo_down_stripe ''seti_4'' = Inl (Some ''connection error'')"
    by (simp add: demo_down_stripe_def)
  show "map (\<lambda>p. (p_id p, setup_status p, error_message p)) (pledges demo_db)
       = [(''p1'', ''complete'', None), (''p2'', ''complete'', None),
          (''p3'', ''complete'', None), (''p4'', ''pending'', None)]"
    by code_simp
  show "fst (webhook_POST demo_down_stripe demo_db demo_webhook_request) = Received"
    by code_simp
  show "map (\<lambda>p. (p_id p, setup_status p, error_message p))
         (pledges (snd (webhook_POST demo_down_stripe demo_db demo_webhook_request)))
       = [(''p1'', ''complete'', None), (''p2'', ''complete'', None),
          (''p3'', ''complete'', None), (''p4'', ''failed'', Some ''connection error'')]"
    by code_simp
qed

text \<open>
  Claim C7, amended. When the setup intent cannot be fetched, each of the two client
  confirmation handlers answers with status 502 and the message
  \<open>Unable to retrieve setup intent\<close> and leaves the store as it is; the webhook handler
  answers \<open>received\<close> and sets the rows of the pledge to setup status \<open>failed\<close> with the
  error's message (\<open>Webhook processing failed\<close> when it has none).
\<close>

theorem setup_intent_unavailable:
  "(isNonEmptyString sid \<and> sessions_retrieve stripe (string_of sid) = Inr session \<and>
    metadata_get (metadata session) ''flow'' = Some ''pledge_setup'' \<and>
    \<not> falsy (metadata_get (metadata session) ''pledge_id'') \<and>
    getStringId (setup_intent session) = Some si \<and> si \<noteq> [] \<and>
    setupIntents_retrieve stripe si = Inl e
    \<longrightarrow> confirm_session_POST stripe db sid
          = (ErrorResponse 502 ''Unable to retrieve setup intent'', db))
   \<and> (resolve_setup stripe body = Inr (pledgeId0, customerId0, si') \<and>
       setupIntents_retrieve stripe si' = Inl e'
       \<longrightarrow> confirm_POST stripe db body
             = (ErrorResponse 502 ''Unable to retrieve setup intent'', db))
   \<and> (\<not> falsy (signature req) \<and> constructEvent req = Some event \<and>
       event_type event = ''checkout.session.completed'' \<and>
       metadata_get (es_metadata (event_object event)) ''flow'' = Some ''pledge_setup'' \<and>
       metadata_get (es_metadata (event_object event)) ''pledge_id'' = Some pid \<and> pid \<noteq> [] \<and>
       es_setup_intent (event_object event) = Some si'' \<and> si'' \<noteq> [] \<and>
       setupIntents_retrieve stripe si'' = Inl e''
       \<longrightarrow> webhook_POST stripe db req
             = (Received,
                update_pledge pid
                  (mark_failed (case e'' of Some m \<Rightarrow> m | None \<Rightarrow> ''Webhook processing failed''))
                  db))"
proof (intro conjI impI)
  assume "isNonEmptyString sid \<and> sessions_retrieve stripe (string_of sid) = Inr session \<and>
    metadata_get (metadata session) ''flow'' = Some ''pledge_setup'' \<and>
    \<not> falsy (metadata_get (metadata session) ''pledge_id'') \<and>
    getStringId (setup_intent session) = Some si \<and> si \<noteq> [] \<and>
    setupIntents_retrieve stripe si = Inl e"
  then show "confirm_session_POST stripe db sid
          = (ErrorResponse 502 ''Unable to retrieve setup intent'', db)"
    by (simp add: confirm_session_POST_def Let_def falsy_def)
next
  assume "resolve_setup stripe body = Inr (pledgeId0, customerId0, si') \<and>
       setupIntents_retrieve stripe si' = Inl e'"
  then show "confirm_POST stripe db body
             = (ErrorResponse 502 ''Unable to retrieve setup intent'', db)"
    by (simp add: confirm_POST_def)
next
  assume "\<not> falsy (signature req) \<and> constructEvent req = Some event \<and>
       event_type event = ''checkout.session.completed'' \<and>
       metadata_get (es_metadata (event_object event)) ''flow'' = Some ''pledge_setup'' \<and>
       metadata_get (es_metadata (event_object event)) ''pledge_id'' = Some pid \<and> pid \<noteq> [] \<and>
       es_setup_intent (event_object event) = Some si'' \<and> si'' \<noteq> [] \<and>
       setupIntents_retrieve stripe si'' = Inl e''"
  then show "webhook_POST stripe db req
             = (Received,
                update_pledge pid
                  (mark_failed (case e'' of Some m \<Rightarrow> m | None \<Rightarrow> ''Webhook processing failed''))
                  db)"
    by (simp add: webhook_POST_def Let_def falsy_def)
qed

text \<open>
  Witness for C7 as amended: the session, the confirmation body and the event of the fourth
  pledge, with setup intents out of reach.
\<close>

lemma demo_down_session:
  "isNonEmptyString (JString ''cs_4'') \<and>
   sessions_retrieve demo_down_stripe (string_of (JString ''cs_4'')) = Inr demo_session \<and>
   metadata_get (metadata demo_session) ''flow'' = Some ''pledge_setup'' \<and>
   \<not> falsy (metadata_get (metadata demo_session) ''pledge_id'') \<and>
   getStringId (setup_intent demo_session) = Some ''seti_4'' \<and> ''seti_4'' \<noteq> [] \<and>
   setupIntents_retrieve demo_down_stripe ''seti_4'' = Inl (Some ''connection error'')"
  by (simp add: isNonEmptyString_def js_whitespace_def string_of_def demo_down_stripe_def
      demo_setup_stripe_def demo_session_def metadata_get_def falsy_def)

lemma demo_down_resolve:
  "resolve_setup demo_down_stripe demo_confirm_body = Inr (Some ''p4'', Some ''cus_p4'', ''seti_4'') \<and>
   setupIntents_retrieve demo_down_stripe ''seti_4'' = Inl (Some ''connection error'')"
  by (simp add: resolve_setup_def demo_confirm_body_def isNonEmptyString_def js_whitespace_def
      string_of_def demo_down_stripe_def demo_setup_stripe_def demo_session_def metadata_get_def
      falsy_def Let_def)

lemma demo_down_event:
  "\<not> falsy (signature demo_webhook_request) \<and>
   constructEvent demo_webhook_request = Some (the (constructEvent demo_webhook_request)) \<and>
   event_type (the (constructEvent demo_webhook_request)) = ''checkout.session.completed'' \<and>
   metadata_get (es_metadata (event_object (the (constructEvent demo_webhook_request)))) ''flow''
     = Some ''pledge_setup'' \<and>
   metadata_get (es_metadata (event_object (the (constructEvent demo_webhook_request)))) ''pledge_id''
     = Some ''p4'' \<and> ''p4'' \<noteq> [] \<and>
   es_setup_intent (event_object (the (constructEvent demo_webhook_request))) = Some ''seti_4'' \<and>
   ''seti_4'' \<noteq> [] \<and>
   setupIntents_retrieve demo_down_stripe ''seti_4'' = Inl (Some ''connection error'')"
  by (simp add: demo_webhook_request_def falsy_def metadata_get_def demo_down_stripe_def
      demo_setup_stripe_def)

theorem setup_intent_unavailable_witness:
  "setupIntents_retrieve demo_down_stripe ''seti_4'' = Inl (Some ''connection error'')
   \<and> confirm_session_POST demo_down_stripe demo_db (JString ''cs_4'')
       = (ErrorResponse 502 ''Unable to retrieve setup intent'', demo_db)
   \<and> confirm_POST demo_down_stripe demo_db demo_confirm_body
       = (ErrorResponse 502 ''Unable to retrieve setup intent'', demo_db)
   \<and> webhook_POST demo_down_stripe demo_db demo_webhook_request
       = (Received, update_pledge ''p4'' (mark_failed ''connection error'') demo_db)"
  using setup_intent_unavailable
    [of "JString ''cs_4''" demo_down_stripe demo_session "''seti_4''" "Some ''connection error''"
        demo_db demo_confirm_body "Some ''p4''" "Some ''cus_p4''" "''seti_4''"
        "Some ''connection error''" demo_webhook_request "the (constructEvent demo_webhook_request)"
        "''p4''" "''seti_4''" "Some ''connection error''"]
    demo_down_session demo_down_resolve demo_down_event
  by simp

subsection \<open>The charged campaign\<close>

text \<open>
  Claim C9 says that a charged campaign accepts neither new pledges nor charge runs, and
  that neither request changes a record. The charge run does not read the campaign's status.
  In the example, the fourth pledge completes its setup after the run; a second run on the
  charged campaign is accepted, charges that pledge 7500 and changes its row.
\<close>

theorem charged_campaign_rerun_counterexample:
  "map_option status (select_campaign demo_db_late ''c1'') = Some ''charged''
   \<and> map (\<lambda>p. (p_id p, setup_status p, charge_status p)) (pledges demo_db_late)
       = [(''p1'', ''complete'', ''charged''), (''p2'', ''complete'', ''requires_action''),
          (''p3'', ''complete'', ''failed''), (''p4'', ''complete'', ''not_charged'')]
   \<and> fst (run_charges_POST (Some ''secret'') demo_setup_stripe demo_db_late (demo_run_body ''c1''))
       = ChargeSummary \<lparr> charged = 1, skipped = 0, failed = 0, requiresAction = 0 \<rparr>
   \<and> map (\<lambda>p. (p_id p, setup_status p, charge_status p))
         (pledges (fst (snd (run_charges_POST (Some ''secret'') demo_setup_stripe demo_db_late
                               (demo_run_body ''c1'')))))
       = [(''p1'', ''complete'', ''charged''), (''p2'', ''complete'', ''requires_action''),
          (''p3'', ''complete'', ''failed''), (''p4'', ''complete'', ''charged'')]
   \<and> map amount (snd (snd (run_charges_POST (Some ''secret'') demo_setup_stripe demo_db_late
                               (demo_run_body ''c1'')))) = [7500]"
  by code_simp

text \<open>
  Claim C9, amended. Once a campaign has status \<open>charged\<close>, a request to create a pledge
  against it is rejected with an error response (status 400,
  \<open>Campaign is not accepting new pledges\<close>, when the body is valid) and a request to set its
  final views is rejected, both leaving the store as it is. A charge run against it is not
  rejected: an authorised run on a campaign with final views completes, processes the pledges
  that are eligible at that moment and leaves the campaign row as it was, with status
  \<open>charged\<close>.
\<close>

theorem charged_campaign_terminal:
  assumes "select_campaign db cid = Some campaign" and "status campaign = ''charged''"
  shows "(cr_campaign_id cbody = JString cid \<longrightarrow>
            (\<exists>code msg. pledge_create_POST stripe newId now db cbody = (ErrorResponse code msg, db)))
         \<and> (cr_campaign_id cbody = JString cid \<and> isNonEmptyString (JString cid) \<and>
             isNonEmptyString (cr_name cbody) \<and> isNonEmptyString (cr_email cbody) \<and>
             rate_per_1000 cbody = Some rate \<and> 1 \<le> rate \<and> cap_amount cbody = None \<longrightarrow>
               pledge_create_POST stripe newId now db cbody
                 = (ErrorResponse 400 ''Campaign is not accepting new pledges'', db))
         \<and> (sv_campaign_id sbody = JString cid \<longrightarrow>
              (\<exists>code msg. set_views_POST pw db sbody = (ErrorResponse code msg, db)))
         \<and> (rb_campaign_id rbody = JString cid \<and> strict_equal (password rbody) pw \<and> cid \<noteq> [] \<and>
             final_views campaign = Some fv \<longrightarrow>
              (\<exists>n db' att. run_charges_POST pw stripe db rbody = (ChargeSummary n, db', att) \<and>
                 select_campaign db' cid = Some campaign \<and>
                 n = rs_counts (run_loop stripe campaign cid fv
                                  (effective_views_cap (views_cap campaign))
                                  \<lparr> rs_store = db, rs_counts = zero_counts, rs_attempts = [] \<rparr>
                                  (filter (eligible cid) (pledges db)))))"
proof (intro conjI impI)
  assume "cr_campaign_id cbody = JString cid"
  with assms show "\<exists>code msg. pledge_create_POST stripe newId now db cbody = (ErrorResponse code msg, db)"
    by (simp add: pledge_create_POST_def string_of_def split: option.split)
next
  assume "cr_campaign_id cbody = JString cid \<and> isNonEmptyString (JString cid) \<and>
             isNonEmptyString (cr_name cbody) \<and> isNonEmptyString (cr_email cbody) \<and>
             rate_per_1000 cbody = Some rate \<and> 1 \<le> rate \<and> cap_amount cbody = None"
  with assms show "pledge_create_POST stripe newId now db cbody
                 = (ErrorResponse 400 ''Campaign is not accepting new pledges'', db)"
    by (simp add: pledge_create_POST_def string_of_def)
next
  assume "sv_campaign_id sbody = JString cid"
  with assms show "\<exists>code msg. set_views_POST pw db sbody = (ErrorResponse code msg, db)"
    by (simp add: set_views_POST_def string_of_def Let_def)
next
  assume h: "rb_campaign_id rbody = JString cid \<and> strict_equal (password rbody) pw \<and> cid \<noteq> [] \<and>
             final_views campaign = Some fv"
  let ?st = "run_loop stripe campaign cid fv (effective_views_cap (views_cap campaign))
               \<lparr> rs_store = db, rs_counts = zero_counts, rs_attempts = [] \<rparr>
               (filter (eligible cid) (pledges db))"
  have run: "run_charges_POST pw stripe db rbody =
               (ChargeSummary (rs_counts ?st),
                update_campaign cid (\<lambda>c. c\<lparr> status := ''charged'' \<rparr>) (rs_store ?st),
                rs_attempts ?st)"
    using h assms(1) by (simp add: run_charges_accepts [where cid = cid] Let_def)
  have "select_campaign (rs_store ?st) cid = select_campaign db cid"
    by (simp add: select_campaign_def run_loop_campaigns)
  with assms have "select_campaign
                     (update_campaign cid (\<lambda>c. c\<lparr> status := ''charged'' \<rparr>) (rs_store ?st)) cid
                   = Some campaign"
    by (simp add: select_campaign_charged)
  with run show "\<exists>n db' att. run_charges_POST pw stripe db rbody = (ChargeSummary n, db', att) \<and>
                 select_campaign db' cid = Some campaign \<and>
                 n = rs_counts ?st"
    by simp
qed

text \<open>
  Witness for C9 as amended: the three requests on the charged campaign of the example.
\<close>

lemma demo_late_campaign:
  "select_campaign demo_db_late ''c1''
   = Some \<lparr> c_id = ''c1'', c_name = Some ''Launch'', views_cap = None,
            final_views = Some 15000, status = ''charged'' \<rparr>"
  by code_simp

theorem charged_campaign_terminal_witness:
  "select_campaign demo_db_late ''c1''
     = Some \<lparr> c_id = ''c1'', c_name = Some ''Launch'', views_cap = None,
              final_views = Some 15000, status = ''charged'' \<rparr>
   \<and> pledge_create_POST demo_setup_stripe ''p5'' 7 demo_db_late demo_create_body
       = (ErrorResponse 400 ''Campaign is not accepting new pledges'', demo_db_late)
   \<and> set_views_POST (Some ''secret'') demo_db_late demo_set_views_body
       = (ErrorResponse 400 ''Campaign is already charged'', demo_db_late)
   \<and> fst (run_charges_POST (Some ''secret'') demo_setup_stripe demo_db_late (demo_run_body ''c1''))
       = ChargeSummary \<lparr> charged = 1, skipped = 0, failed = 0, requiresAction = 0 \<rparr>
   \<and> select_campaign
         (fst (snd (run_charges_POST (Some ''secret'') demo_setup_stripe demo_db_late
                      (demo_run_body ''c1'')))) ''c1''
       = Some \<lparr> c_id = ''c1'', c_name = Some ''Launch'', views_cap = None,
                final_views = Some 15000, status = ''charged'' \<rparr>"
proof -
  let ?c = "\<lparr> c_id = ''c1'', c_name = Some ''Launch'', views_cap = None,
              final_views = Some 15000, status = ''charged'' \<rparr>"
  have st: "status ?c = ''charged''" by simp
  note inst = charged_campaign_terminal [OF demo_late_campaign st,
      of demo_create_body demo_setup_stripe "''p5''" 7 5 demo_set_views_body "Some ''secret''"
         "demo_run_body ''c1''" 15000]
  have body: "cr_campaign_id demo_create_body = JString ''c1'' \<and> isNonEmptyString (JString ''c1'') \<and>
      isNonEmptyString (cr_name demo_create_body) \<and> isNonEmptyString (cr_email demo_create_body) \<and>
      rate_per_1000 demo_create_body = Some 5 \<and> (1::rat) \<le> 5 \<and> cap_amount demo_create_body = None"
    by (simp add: demo_create_body_def isNonEmptyString_def js_whitespace_def)
  from inst body have create: "pledge_create_POST demo_setup_stripe ''p5'' 7 demo_db_late demo_create_body
       = (ErrorResponse 400 ''Campaign is not accepting new pledges'', demo_db_late)"
    by blast
  have rb: "rb_campaign_id (demo_run_body ''c1'') = JString ''c1'' \<and>
      strict_equal (password (demo_run_body ''c1'')) (Some ''secret'') \<and> ''c1'' \<noteq> [] \<and>
      final_views ?c = Some 15000"
    by (simp add: demo_run_body_def)
  from inst rb have rerun: "select_campaign
         (fst (snd (run_charges_POST (Some ''secret'') demo_setup_stripe demo_db_late
                      (demo_run_body ''c1'')))) ''c1'' = Some ?c"
    by auto
  have views: "set_views_POST (Some ''secret'') demo_db_late demo_set_views_body
       = (ErrorResponse 400 ''Campaign is already charged'', demo_db_late)"
    using demo_late_campaign
    by (simp add: set_views_POST_def demo_set_views_body_def string_of_def Let_def)
  have summary: "fst (run_charges_POST (Some ''secret'') demo_setup_stripe demo_db_late (demo_run_body ''c1''))
       = ChargeSummary \<lparr> charged = 1, skipped = 0, failed = 0, requiresAction = 0 \<rparr>"
    by code_simp
  from demo_late_campaign create views summary rerun show ?thesis by simp
qed

end
